theory Spec2Isabelle
  imports Main
begin

section \<open>Python values and exceptions\<close>

text \<open>
  The values the three methods of \<^verbatim>\<open>JasperPy\<close> receive from their caller. A dictionary is an
  association list with string keys (the keys of a dictionary are distinct); floats and
  other objects are not modelled.
\<close>

datatype pyval =
    PNone
  | PBool bool
  | PInt int
  | PStr string
  | PList "pyval list"
  | PDict "(string \<times> pyval) list"

text \<open>Truth value of an object, as \<^verbatim>\<open>if x:\<close> and \<^verbatim>\<open>not x\<close> test it.\<close>

fun truthy :: "pyval \<Rightarrow> bool" where
  "truthy PNone = False"
| "truthy (PBool b) = b"
| "truthy (PInt n) = (n \<noteq> 0)"
| "truthy (PStr s) = (s \<noteq> [])"
| "truthy (PList xs) = (xs \<noteq> [])"
| "truthy (PDict d) = (d \<noteq> [])"

fun type_name :: "pyval \<Rightarrow> string" where
  "type_name PNone = ''NoneType''"
| "type_name (PBool b) = ''bool''"
| "type_name (PInt n) = ''int''"
| "type_name (PStr s) = ''str''"
| "type_name (PList xs) = ''list''"
| "type_name (PDict d) = ''dict''"

text \<open>
  Every exception of the model is an instance of Python's \<^verbatim>\<open>Exception\<close>, so every
  \<^verbatim>\<open>except Exception\<close> clause of the source catches it. \<open>NameError m\<close> is what the source
  raises itself (\<^verbatim>\<open>raise NameError(m)\<close>); \<open>KeyError k\<close> is a subscript with an absent key;
  \<open>UnboundLocalError v\<close> is a read of a local variable that was never assigned;
  \<open>ForeignError m\<close> is an exception coming out of a call into the Java engine through the
  bridge and \<open>LibError m\<close> one coming out of \<^verbatim>\<open>requests\<close>, \<^verbatim>\<open>json\<close> or \<^verbatim>\<open>open\<close>, both
  carrying the text that \<^verbatim>\<open>str(e)\<close> gives.
\<close>

datatype exn =
    NameError string
  | KeyError string
  | TypeError string
  | ValueError string
  | UnboundLocalError string
  | ForeignError string
  | LibError string

text \<open>
  \<^verbatim>\<open>str(e)\<close>. The key of a \<open>KeyError\<close> is always one of the literal keys of the source.
  The messages of the interpreter's own exceptions, here and below, are those of
  CPython 3.11.
\<close>

fun str_exn :: "exn \<Rightarrow> string" where
  "str_exn (NameError m) = m"
| "str_exn (KeyError k) = [CHR 0x27] @ k @ [CHR 0x27]"
| "str_exn (TypeError m) = m"
| "str_exn (ValueError m) = m"
| "str_exn (UnboundLocalError v) =
     ''cannot access local variable '' @ [CHR 0x27] @ v @ [CHR 0x27]
     @ '' where it is not associated with a value''"
| "str_exn (ForeignError m) = m"
| "str_exn (LibError m) = m"

subsection \<open>Dictionaries\<close>

text \<open>\<^verbatim>\<open>k in d\<close> and \<^verbatim>\<open>d[k]\<close>.\<close>

definition has_key :: "(string \<times> 'v) list \<Rightarrow> string \<Rightarrow> bool" where
  "has_key d k = (map_of d k \<noteq> None)"

definition subscript :: "(string \<times> pyval) list \<Rightarrow> string \<Rightarrow> exn + pyval" where
  "subscript d k = (case map_of d k of None \<Rightarrow> Inl (KeyError k) | Some v \<Rightarrow> Inr v)"

subsection \<open>Strings and paths\<close>

text \<open>\<^verbatim>\<open>needle in haystack\<close> on two strings: the needle occurs as a contiguous substring.\<close>

fun py_in_str :: "string \<Rightarrow> string \<Rightarrow> bool" where
  "py_in_str n [] = (n = [])"
| "py_in_str n (h # hs) = (take (length n) (h # hs) = n \<or> py_in_str n hs)"

text \<open>\<^verbatim>\<open>s.split(c)\<close> for a one-character separator: never the empty list.\<close>

fun split_on :: "char \<Rightarrow> string \<Rightarrow> string list" where
  "split_on c [] = [[]]"
| "split_on c (x # xs) =
     (if x = c then [] # split_on c xs
      else (case split_on c xs of [] \<Rightarrow> [[x]] | y # ys \<Rightarrow> (x # y) # ys))"

text \<open>\<^verbatim>\<open>os.path.dirname\<close> and \<^verbatim>\<open>os.path.join\<close> of two components, on a POSIX system.\<close>

definition dirname :: "string \<Rightarrow> string" where
  "dirname p =
     (let head = rev (dropWhile (\<lambda>c. c \<noteq> CHR ''/'') (rev p))
      in if head \<noteq> [] \<and> \<not> list_all (\<lambda>c. c = CHR ''/'') head
         then rev (dropWhile (\<lambda>c. c = CHR ''/'') (rev head))
         else head)"

definition path_join :: "string \<Rightarrow> string \<Rightarrow> string" where
  "path_join a b =
     (if b \<noteq> [] \<and> hd b = CHR ''/'' then b
      else if a = [] \<or> last a = CHR ''/'' then a @ b
      else a @ ''/'' @ b)"

subsection \<open>Integers\<close>

text \<open>\<^verbatim>\<open>str(n)\<close> for an integer; \<open>digit_char\<close> is applied to numbers below ten only.\<close>

definition digit_char :: "nat \<Rightarrow> char" where
  "digit_char d = ''0123456789'' ! d"

fun str_nat :: "nat \<Rightarrow> string" where
  "str_nat n = (if n < 10 then [digit_char n] else str_nat (n div 10) @ [digit_char (n mod 10)])"

declare str_nat.simps [simp del]

definition str_int :: "int \<Rightarrow> string" where
  "str_int i = (if i < 0 then CHR ''-'' # str_nat (nat (- i)) else str_nat (nat i))"

text \<open>
  \<^verbatim>\<open>repr(s)\<close> of a string, which the message of \<^verbatim>\<open>int\<close>'s \<^verbatim>\<open>ValueError\<close> quotes. The
  characters of a string are the code points below 256; of these, the ones below 32,
  from 127 to 160, and 173 are not printable and are written as escapes. \<open>hex_char\<close> is
  applied to numbers below sixteen only.
\<close>

definition hex_char :: "nat \<Rightarrow> char" where
  "hex_char d = ''0123456789abcdef'' ! d"

definition repr_char :: "char \<Rightarrow> char \<Rightarrow> string" where
  "repr_char q c =
     (if c = q \<or> c = CHR 0x5C then [CHR 0x5C, c]
      else if c = CHR 0x09 then [CHR 0x5C, CHR ''t'']
      else if c = CHR 0x0A then [CHR 0x5C, CHR ''n'']
      else if c = CHR 0x0D then [CHR 0x5C, CHR ''r'']
      else if (of_char c :: nat) < 32 \<or> (127 \<le> (of_char c :: nat) \<and> (of_char c :: nat) \<le> 160)
              \<or> (of_char c :: nat) = 173
        then [CHR 0x5C, CHR ''x'', hex_char (of_char c div 16), hex_char (of_char c mod 16)]
      else [c])"

definition py_repr :: "string \<Rightarrow> string" where
  "py_repr s =
     (let q = (if CHR 0x27 \<in> set s \<and> CHR 0x22 \<notin> set s then CHR 0x22 else CHR 0x27)
      in [q] @ concat (map (repr_char q) s) @ [q])"

text \<open>
  \<^verbatim>\<open>int(v)\<close>, as \<^verbatim>\<open>PyLong_FromUnicodeObject\<close> and \<^verbatim>\<open>PyLong_FromString\<close> of CPython 3.11
  compute it in base 10. When the string is not all ASCII, it is first rewritten: the
  two whitespace characters from 127 on (133 and 160) become spaces, and the first other
  character from 127 on is replaced by a question mark that ends the text. What is read
  then is: whitespace (the space and the characters 9 to 13), an optional sign, the
  longest run of digits and underscores, whitespace, and nothing more. The run is not
  empty, does not start or end with an underscore and has no two underscores in a row.
  A well-formed run of more than \<open>limit\<close> digits is refused, before the rest of the string
  is looked at, when \<open>limit\<close> is positive: \<open>limit\<close> is \<^verbatim>\<open>sys.get_int_max_str_digits()\<close>, which
  is 4300 unless the program changed it, and is never between 1 and 639. The message
  for an invalid literal quotes the first 200 characters of \<^verbatim>\<open>repr(s)\<close>.
\<close>

definition is_space :: "char \<Rightarrow> bool" where
  "is_space c = (c = CHR '' '' \<or> (9 \<le> (of_char c :: nat) \<and> (of_char c :: nat) \<le> 13))"

definition is_digit :: "char \<Rightarrow> bool" where
  "is_digit c = (of_char CHR ''0'' \<le> (of_char c :: nat) \<and> (of_char c :: nat) \<le> of_char CHR ''9'')"

definition digit_val :: "char \<Rightarrow> int" where
  "digit_val c = of_char c - of_char CHR ''0''"

fun transform :: "string \<Rightarrow> string" where
  "transform [] = []"
| "transform (c # cs) =
     (if (of_char c :: nat) < 127 then c # transform cs
      else if c = CHR 0x85 \<or> c = CHR 0xA0 then CHR '' '' # transform cs
      else ''?'')"

definition to_ascii :: "string \<Rightarrow> string" where
  "to_ascii s = (if list_all (\<lambda>c. (of_char c :: nat) < 128) s then s else transform s)"

definition in_number :: "char \<Rightarrow> bool" where
  "in_number c = (is_digit c \<or> c = CHR ''_'')"

fun double_underscore :: "string \<Rightarrow> bool" where
  "double_underscore (c # d # cs) =
     ((c = CHR ''_'' \<and> d = CHR ''_'') \<or> double_underscore (d # cs))"
| "double_underscore cs = False"

definition digits_value :: "string \<Rightarrow> int" where
  "digits_value ds = foldl (\<lambda>acc c. 10 * acc + digit_val c) 0 ds"

definition invalid_literal :: "string \<Rightarrow> exn" where
  "invalid_literal s =
     ValueError (''invalid literal for int() with base 10: '' @ take 200 (py_repr s))"

definition too_many_digits :: "nat \<Rightarrow> nat \<Rightarrow> exn" where
  "too_many_digits limit n =
     ValueError (''Exceeds the limit ('' @ str_nat limit
                 @ '' digits) for integer string conversion: value has '' @ str_nat n
                 @ '' digits; use sys.set_int_max_str_digits() to increase the limit'')"

definition int_of_str :: "nat \<Rightarrow> string \<Rightarrow> exn + int" where
  "int_of_str limit s =
     (let t = dropWhile is_space (to_ascii s);
          negative = (t \<noteq> [] \<and> hd t = CHR ''-'');
          u = (if t \<noteq> [] \<and> (hd t = CHR ''-'' \<or> hd t = CHR ''+'') then tl t else t);
          run = takeWhile in_number u;
          rest = dropWhile in_number u;
          digits = filter is_digit run
      in if run \<noteq> [] \<and> (hd run = CHR ''_'' \<or> last run = CHR ''_'') \<or> double_underscore run
         then Inl (invalid_literal s)
         else if 640 < length digits \<and> 0 < limit \<and> limit < length digits
         then Inl (too_many_digits limit (length digits))
         else if run = [] \<or> dropWhile is_space rest \<noteq> []
         then Inl (invalid_literal s)
         else Inr (if negative then - digits_value digits else digits_value digits))"

fun py_int :: "nat \<Rightarrow> pyval \<Rightarrow> exn + int" where
  "py_int limit (PInt n) = Inr n"
| "py_int limit (PBool b) = Inr (if b then 1 else 0)"
| "py_int limit (PStr s) = int_of_str limit s"
| "py_int limit v =
     Inl (TypeError (''int() argument must be a string, a bytes-like object or a real number, not ''
                     @ [CHR 0x27] @ type_name v @ [CHR 0x27]))"

section \<open>The foreign runtime and the world outside\<close>

text \<open>
  \<open>System.in\<close> and \<open>System.out\<close> of the Java runtime hold stream handles. \<open>Handle n\<close> is a
  stream installed by somebody else; \<open>BufferStream\<close> is the
  \<^verbatim>\<open>PrintStream(ByteArrayOutputStream())\<close> that \<^verbatim>\<open>process\<close> creates.
\<close>

datatype stream = Handle nat | BufferStream

datatype dstype = DsNone | Postgres | Mysql | Oracle | Generic | Csv | Xml | Json | Jsonql

text \<open>
  Arguments of foreign calls: a Python value converted by the bridge, \<^verbatim>\<open>jvFile(v)\<close>,
  \<^verbatim>\<open>jvArrays.asList(v)\<close>, \<^verbatim>\<open>jvLocale(v)\<close>, a constant of \<^verbatim>\<open>jvDsType\<close>, a stream, the contents
  of a \<^verbatim>\<open>HashMap\<close> (newest entry first), and a reference to the Java object that the named
  variable or expression of the source gives.
\<close>

datatype jarg =
    Py pyval
  | JFile pyval
  | AsList pyval
  | JLocale pyval
  | DsType dstype
  | Stream stream
  | JMap "(string \<times> jarg) list"
  | Ref string

record request =
  req_method :: pyval
  req_url :: pyval
  req_data :: pyval
  req_headers :: pyval
  req_params :: pyval

record response =
  status_code :: int
  resp_text :: string

text \<open>
  What a run does to the outside, in order. \<open>Call name args out\<close> is a call into the Java
  runtime, named as the source writes it, with the value of \<open>System.out\<close> at that moment.
\<close>

datatype event =
    Call string "jarg list" stream
  | HttpSend request
  | FileWrite string string
  | TempDirCreate string
  | TempDirRemove string

text \<open>
  Everything the code cannot decide itself is a parameter: whether a call into the engine
  raises (given the events so far, the name and the arguments; \<open>Some m\<close> is the text of the
  exception), what a \<^verbatim>\<open>Config\<close> answers for a data-source type that was never set and for
  \<^verbatim>\<open>hasAskFilter()\<close>, what \<^verbatim>\<open>promptForParams\<close> returns, the file system, the attribute
  \<^verbatim>\<open>JDBC_FILE\<close> of the instance, the temporary directory, the HTTP endpoint, the
  \<^verbatim>\<open>json\<close> library, and the interpreter's limit on the digits of a string given to
  \<^verbatim>\<open>int\<close> (0: no limit).
\<close>

record world =
  jvm_raises :: "event list \<Rightarrow> string \<Rightarrow> jarg list \<Rightarrow> string option"
  default_db_type :: "dstype option"
  has_ask_filter :: bool
  prompt_result :: "(string \<times> jarg) list"
  isfile :: "string \<Rightarrow> bool"
  isdir :: "string \<Rightarrow> bool"
  glob :: "string \<Rightarrow> string list"
  JDBC_FILE :: string
  tmp_dir :: string
  http_send :: "request \<Rightarrow> exn + response"
  json_loads :: "string \<Rightarrow> exn + pyval"
  json_dumps :: "pyval \<Rightarrow> string"
  open_raises :: "string \<Rightarrow> string option"
  int_max_str_digits :: nat

text \<open>
  The state of a run: the events so far, the two stream handles of the Java runtime, and
  the local variables of the running method that are objects with state or are assigned
  on some paths only: \<open>config\<close> (the fields set on the local \<^verbatim>\<open>Config\<close>, newest first),
  \<open>file_out\<close> and \<open>output_file\<close> of \<^verbatim>\<open>process_json\<close> (\<open>file_out = None\<close>: not assigned yet),
  and its \<^verbatim>\<open>parameters\<close> map once that is a \<^verbatim>\<open>HashMap\<close>.
\<close>

record state =
  events :: "event list"
  sys_in :: stream
  sys_out :: stream
  config :: "(string \<times> jarg) list"
  file_out :: "string option"
  output_file :: pyval
  jparameters :: "(string \<times> jarg) list"

section \<open>Statements\<close>

text \<open>
  A statement runs on a state and ends normally (\<open>None\<close>) or by raising (\<open>Some e\<close>); the
  state is kept either way. The three methods return \<^verbatim>\<open>0\<close> whenever they return, so
  \<open>None\<close> at the end of a method is \<^verbatim>\<open>return 0\<close>.
\<close>

type_synonym stmt = "state \<Rightarrow> exn option \<times> state"

definition skip :: stmt where
  "skip s = (None, s)"

definition raise :: "exn \<Rightarrow> stmt" where
  "raise e s = (Some e, s)"

fun seq :: "stmt list \<Rightarrow> stmt" where
  "seq [] s = (None, s)"
| "seq (c # cs) s = (case c s of (None, s') \<Rightarrow> seq cs s' | (Some e, s') \<Rightarrow> (Some e, s'))"

definition cond :: "bool \<Rightarrow> stmt \<Rightarrow> stmt" where
  "cond b c = (if b then c else skip)"

text \<open>An expression that may raise, and the statement that uses its value.\<close>

definition compute :: "exn + 'a \<Rightarrow> ('a \<Rightarrow> stmt) \<Rightarrow> stmt" where
  "compute r k s = (case r of Inl e \<Rightarrow> (Some e, s) | Inr v \<Rightarrow> k v s)"

text \<open>\<^verbatim>\<open>try: body finally: fin\<close>: an exception of \<open>fin\<close> replaces the outcome of \<open>body\<close>.\<close>

definition try_finally :: "stmt \<Rightarrow> stmt \<Rightarrow> stmt" where
  "try_finally body fin s =
     (case body s of (r, s') \<Rightarrow>
        (case fin s' of (None, s'') \<Rightarrow> (r, s'') | (Some e, s'') \<Rightarrow> (Some e, s'')))"

text \<open>\<^verbatim>\<open>try: body except Exception as e: handler e\<close>.\<close>

definition try_except :: "stmt \<Rightarrow> (exn \<Rightarrow> stmt) \<Rightarrow> stmt" where
  "try_except body handler s =
     (case body s of (None, s') \<Rightarrow> (None, s') | (Some e, s') \<Rightarrow> handler e s')"

text \<open>
  A call into the engine: the attempt is recorded, and the call raises when the world
  says so. The evaluation of the arguments on the Java side (\<^verbatim>\<open>jvFile\<close>, \<^verbatim>\<open>asList\<close>, the
  conversion of Python values) is part of the call.
\<close>

definition jcall :: "world \<Rightarrow> string \<Rightarrow> jarg list \<Rightarrow> stmt" where
  "jcall w name args s =
     (let s' = s\<lparr>events := events s @ [Call name args (sys_out s)]\<rparr>
      in case jvm_raises w (events s) name args of
           None \<Rightarrow> (None, s')
         | Some m \<Rightarrow> (Some (ForeignError m), s'))"

text \<open>
  The stream operations of \<^verbatim>\<open>java.lang.System\<close> and \<^verbatim>\<open>PrintStream.flush\<close> do not raise.
\<close>

definition flush_out :: stmt where
  "flush_out s = (None, s\<lparr>events := events s @ [Call ''jvSystem.out.flush'' [] (sys_out s)]\<rparr>)"

definition setOut :: "stream \<Rightarrow> stmt" where
  "setOut h s =
     (None, s\<lparr>events := events s @ [Call ''jvSystem.setOut'' [Stream h] (sys_out s)],
              sys_out := h\<rparr>)"

definition setIn :: "stream \<Rightarrow> stmt" where
  "setIn h s =
     (None, s\<lparr>events := events s @ [Call ''jvSystem.setIn'' [Stream h] (sys_out s)],
              sys_in := h\<rparr>)"

text \<open>\<^verbatim>\<open>config = self.jvConfig()\<close> and \<^verbatim>\<open>config.setX(v)\<close>.\<close>

definition new_config :: "world \<Rightarrow> stmt" where
  "new_config w = seq [jcall w ''jvConfig'' [], (\<lambda>s. (None, s\<lparr>config := []\<rparr>))]"

definition config_set :: "world \<Rightarrow> string \<Rightarrow> jarg \<Rightarrow> stmt" where
  "config_set w field v =
     seq [jcall w (''config.set'' @ field) [v], (\<lambda>s. (None, s\<lparr>config := (field, v) # config s\<rparr>))]"

text \<open>\<^verbatim>\<open>config.getInput()\<close> and \<^verbatim>\<open>config.getDbType()\<close>; \<open>None\<close> is Java's \<^verbatim>\<open>null\<close>.\<close>

definition getInput :: "state \<Rightarrow> pyval" where
  "getInput s = (case map_of (config s) ''Input'' of Some (Py v) \<Rightarrow> v | _ \<Rightarrow> PNone)"

definition getDbType :: "world \<Rightarrow> state \<Rightarrow> dstype option" where
  "getDbType w s =
     (case map_of (config s) ''DbType'' of Some (DsType t) \<Rightarrow> Some t | _ \<Rightarrow> default_db_type w)"

text \<open>The handler of the outer \<^verbatim>\<open>except\<close> clauses: \<^verbatim>\<open>raise NameError('Error: %s' % str(e))\<close>.\<close>

definition reraise :: "string \<Rightarrow> exn \<Rightarrow> stmt" where
  "reraise prefix e = raise (NameError (prefix @ str_exn e))"

section \<open>\<^verbatim>\<open>JasperPy.compile\<close>\<close>

definition compile :: "world \<Rightarrow> pyval \<Rightarrow> stmt" where
  "compile w report =
     seq [
       cond (\<not> truthy report) (raise (NameError ''No input file!'')),
       try_except
         (try_finally
            (seq [
               new_config w,
               config_set w ''Input'' (Py report),
               (\<lambda>s. jcall w ''jvReport'' [Ref ''config'', JFile (getInput s)] s),
               jcall w ''report.compileToFile'' []])
            flush_out)
         (reraise ''Error: '')]"

section \<open>\<^verbatim>\<open>JasperPy.process\<close>\<close>

definition FORMATS :: "string list" where
  "FORMATS = [''pdf'', ''rtf'', ''xls'', ''xlsx'', ''docx'', ''odt'', ''ods'', ''pptx'', ''csv'',
              ''html'', ''xhtml'', ''xml'', ''jrprint'']"

text \<open>
  Lines 114 to 121. The path \<open>input_file\<close> is a string; \<open>format_list\<close> is any value.
  \<^verbatim>\<open>key not in self._FORMATS\<close> compares \<open>key\<close> with the thirteen strings of the tuple.
\<close>

definition process_validate :: "string \<Rightarrow> pyval \<Rightarrow> stmt" where
  "process_validate input_file format_list =
     seq [
       cond (input_file = []) (raise (NameError ''No input file!'')),
       (case format_list of
          PList keys \<Rightarrow>
            cond (list_ex (\<lambda>key. key \<notin> set (map PStr FORMATS)) keys)
              (raise (NameError ''Invalid format!''))
        | _ \<Rightarrow>
            raise (NameError ([CHR 0x27] @ ''format_list'' @ [CHR 0x27] @ '' value is not list!'')))]"

text \<open>\<^verbatim>\<open>[k + '=' + v for k, v in parameters.items()]\<close>, on a dictionary of strings.\<close>

definition render_params :: "(string \<times> string) list \<Rightarrow> pyval" where
  "render_params ps = PList (map (\<lambda>(k, v). PStr (k @ ''='' @ v)) ps)"

text \<open>The chain of lines 135 to 150; \<open>None\<close>: no branch is taken.\<close>

definition process_driver :: "pyval \<Rightarrow> dstype option" where
  "process_driver d =
     (if d = PStr ''postgres'' then Some Postgres
      else if d = PStr ''mysql'' then Some Mysql
      else if d = PStr ''oracle'' then Some Oracle
      else if d = PStr ''generic'' then Some Generic
      else if d = PStr ''csv'' then Some Csv
      else if d = PStr ''xml'' then Some Xml
      else if d = PStr ''json'' then Some Json
      else if d = PStr ''jsonql'' then Some Jsonql
      else None)"

text \<open>Lines 124 to 152.\<close>

definition process_configure ::
  "world \<Rightarrow> string \<Rightarrow> pyval \<Rightarrow> pyval \<Rightarrow> (string \<times> string) list \<Rightarrow> (string \<times> pyval) list
    \<Rightarrow> pyval \<Rightarrow> stmt" where
  "process_configure w input_file output format_list parameters db_connection locale =
     seq [
       new_config w,
       config_set w ''Input'' (Py (PStr input_file)),
       config_set w ''Locale'' (Py locale),
       (if truthy output then config_set w ''Output'' (Py output)
        else config_set w ''Output'' (Py (PStr (dirname input_file)))),
       config_set w ''OutputFormats'' (AsList format_list),
       cond (parameters \<noteq> []) (config_set w ''Params'' (AsList (render_params parameters))),
       (if has_key db_connection ''driver''
        then compute (subscript db_connection ''driver'')
               (\<lambda>d. case process_driver d of
                       Some t \<Rightarrow> config_set w ''DbType'' (DsType t)
                     | None \<Rightarrow> skip)
        else config_set w ''DbType'' (DsType DsNone))]"

text \<open>\<^verbatim>\<open>if key in d: config.setField(conv(d[key]))\<close>.\<close>

definition copy_field ::
  "world \<Rightarrow> (string \<times> pyval) list \<Rightarrow> string \<Rightarrow> string \<Rightarrow> (pyval \<Rightarrow> jarg) \<Rightarrow> stmt" where
  "copy_field w d key field conv =
     cond (has_key d key) (compute (subscript d key) (\<lambda>v. config_set w field (conv v)))"

text \<open>Lines 167 and 168.\<close>

definition set_port :: "world \<Rightarrow> (string \<times> pyval) list \<Rightarrow> stmt" where
  "set_port w db_connection =
     cond (has_key db_connection ''port'')
       (compute (subscript db_connection ''port'')
          (\<lambda>v. compute (py_int (int_max_str_digits w) v)
                 (\<lambda>n. config_set w ''DbPort'' (Py (PInt n)))))"

text \<open>Lines 154 to 201.\<close>

definition process_connection :: "world \<Rightarrow> (string \<times> pyval) list \<Rightarrow> stmt" where
  "process_connection w db_connection =
     cond (db_connection \<noteq> [])
       (seq [
          copy_field w db_connection ''username'' ''DbUser'' Py,
          copy_field w db_connection ''password'' ''DbPasswd'' Py,
          copy_field w db_connection ''host'' ''DbHost'' Py,
          copy_field w db_connection ''database'' ''DbName'' Py,
          set_port w db_connection,
          copy_field w db_connection ''jdbc_dir'' ''JdbcDir'' JFile,
          copy_field w db_connection ''db_sid'' ''DbSid'' Py,
          copy_field w db_connection ''xml_xpath'' ''XmlXpath'' Py,
          copy_field w db_connection ''data_file'' ''DataFile'' JFile,
          copy_field w db_connection ''json_query'' ''JsonQuery'' Py,
          copy_field w db_connection ''jsonql_query'' ''JsonQLQuery'' Py,
          cond (has_key db_connection ''csv_first_row'')
            (config_set w ''CsvFirstRow'' (Py (PBool True))),
          copy_field w db_connection ''csv_columns'' ''CsvColumns'' Py,
          copy_field w db_connection ''csv_record_del'' ''CsvRecordDel'' Py,
          copy_field w db_connection ''csv_field_del'' ''CsvFieldDel'' Py,
          copy_field w db_connection ''csv_charset'' ''CsvCharset'' Py])"

text \<open>Lines 203 to 211.\<close>

definition process_classpath :: "world \<Rightarrow> string \<Rightarrow> stmt" where
  "process_classpath w resource =
     seq [
       jcall w ''jvApplicationClasspath.add'' [JFile (PStr (JDBC_FILE w))],
       (if isfile w resource then jcall w ''jvApplicationClasspath.add'' [JFile (PStr resource)]
        else if isdir w resource then
          seq (jcall w ''jvApplicationClasspath.add'' [Py (PStr resource)]
               # map (\<lambda>res_file. jcall w ''jvApplicationClasspath.add'' [JFile (PStr res_file)])
                   (glob w (path_join resource ''*.jar'')))
        else skip)]"

text \<open>The dispatch of lines 224 to 251 on one element of the format list.\<close>

definition export_method :: "pyval \<Rightarrow> string option" where
  "export_method format_out =
     (if format_out = PStr ''pdf'' then Some ''exportPdf''
      else if format_out = PStr ''rtf'' then Some ''exportRtf''
      else if format_out = PStr ''xls'' then Some ''exportXls''
      else if format_out = PStr ''xlsx'' then Some ''exportXlsx''
      else if format_out = PStr ''docx'' then Some ''exportDocx''
      else if format_out = PStr ''odt'' then Some ''exportOdt''
      else if format_out = PStr ''ods'' then Some ''exportOds''
      else if format_out = PStr ''pptx'' then Some ''exportPptx''
      else if format_out = PStr ''csv'' then Some ''exportCsv''
      else if format_out = PStr ''html'' then Some ''exportHtml''
      else if format_out = PStr ''xhtml'' then Some ''exportXhtml''
      else if format_out = PStr ''xml'' then Some ''exportXml''
      else if format_out = PStr ''jrprint'' then Some ''exportJrprint''
      else None)"

definition export_step :: "world \<Rightarrow> pyval \<Rightarrow> stmt" where
  "export_step w format_out =
     (case export_method format_out of
        Some m \<Rightarrow> jcall w (''report.'' @ m) []
      | None \<Rightarrow>
          (case format_out of
             PStr f \<Rightarrow>
               raise (NameError (''Error output format '' @ [CHR 0x22] @ f @ [CHR 0x22]
                                 @ '' not implemented!''))
           | _ \<Rightarrow>
               raise (TypeError (''can only concatenate str (not '' @ [CHR 0x22]
                                 @ type_name format_out @ [CHR 0x22] @ '') to str''))))"

text \<open>The elements a \<^verbatim>\<open>for\<close> loop runs over; the loops are reached with a list only.\<close>

fun items_of :: "pyval \<Rightarrow> pyval list" where
  "items_of (PList xs) = xs"
| "items_of v = []"

text \<open>
  Lines 216 to 255: the report is built, the two handles are saved, and the fill and the
  exports run inside \<^verbatim>\<open>try\<close> ... \<^verbatim>\<open>finally\<close>.
\<close>

definition process_run :: "world \<Rightarrow> pyval \<Rightarrow> stmt" where
  "process_run w format_list =
     seq [
       (\<lambda>s. jcall w ''jvReport'' [Ref ''config'', JFile (getInput s)] s),
       (\<lambda>s. let savedStdin = sys_in s; savedStdout = sys_out s
            in try_finally
                 (seq (setOut BufferStream
                       # jcall w ''report.fill'' []
                       # map (export_step w) (items_of format_list)))
                 (seq [flush_out, setIn savedStdin, setOut savedStdout]) s)]"

definition process ::
  "world \<Rightarrow> string \<Rightarrow> pyval \<Rightarrow> pyval \<Rightarrow> (string \<times> string) list \<Rightarrow> (string \<times> pyval) list
    \<Rightarrow> pyval \<Rightarrow> string \<Rightarrow> stmt" where
  "process w input_file output format_list parameters db_connection locale resource =
     seq [
       process_validate input_file format_list,
       try_except
         (seq [
            process_configure w input_file output format_list parameters db_connection locale,
            process_connection w db_connection,
            process_classpath w resource,
            process_run w format_list])
         (reraise ''Error: '')]"

section \<open>\<^verbatim>\<open>JasperPy.process_json\<close>\<close>

text \<open>
  Line 34 is \<^verbatim>\<open>_FORMATS_JSON = ('pdf')\<close>: parentheses without a comma, so the attribute is
  the string \<^verbatim>\<open>'pdf'\<close> and not a tuple, and \<^verbatim>\<open>key not in self._FORMATS_JSON\<close> is a test for
  a substring, which raises \<^verbatim>\<open>TypeError\<close> when \<open>key\<close> is not a string.
\<close>

definition FORMATS_JSON :: string where
  "FORMATS_JSON = ''pdf''"

definition FORMATS_METHODS_REQUEST :: "string list" where
  "FORMATS_METHODS_REQUEST = [''GET'', ''POST'', ''PUT'']"

definition not_in_formats_json :: "pyval \<Rightarrow> exn + bool" where
  "not_in_formats_json key =
     (case key of
        PStr k \<Rightarrow> Inr (\<not> py_in_str k FORMATS_JSON)
      | _ \<Rightarrow>
          Inl (TypeError ([CHR 0x27] @ ''in <string>'' @ [CHR 0x27]
                          @ '' requires string as left operand, not '' @ type_name key)))"

text \<open>A list comprehension whose element expression may raise.\<close>

fun comprehension :: "('a \<Rightarrow> exn + 'b) \<Rightarrow> 'a list \<Rightarrow> exn + 'b list" where
  "comprehension f [] = Inr []"
| "comprehension f (x # xs) =
     (case f x of
        Inl e \<Rightarrow> Inl e
      | Inr y \<Rightarrow> (case comprehension f xs of Inl e \<Rightarrow> Inl e | Inr ys \<Rightarrow> Inr (y # ys)))"

text \<open>Lines 269 to 276.\<close>

definition process_json_validate :: "string \<Rightarrow> pyval \<Rightarrow> stmt" where
  "process_json_validate input_file format_list =
     seq [
       cond (input_file = []) (raise (NameError ''No input file!'')),
       (case format_list of
          PList keys \<Rightarrow>
            compute (comprehension not_in_formats_json keys)
              (\<lambda>bs. cond (list_ex (\<lambda>b. b) bs) (raise (NameError ''Invalid format output!'')))
        | _ \<Rightarrow>
            raise (NameError ([CHR 0x27] @ ''format_list'' @ [CHR 0x27] @ '' value is not list!'')))]"

text \<open>Lines 295 to 301.\<close>

definition json_set_db_type :: "world \<Rightarrow> (string \<times> pyval) list \<Rightarrow> stmt" where
  "json_set_db_type w connection =
     (if has_key connection ''driver''
      then compute (subscript connection ''driver'')
             (\<lambda>d. if d = PStr ''json'' then config_set w ''DbType'' (DsType Json)
                  else if d = PStr ''jsonql'' then config_set w ''DbType'' (DsType Jsonql)
                  else skip)
      else config_set w ''DbType'' (DsType DsNone))"

text \<open>
  Lines 279 to 301. Lines 286 to 288 take the text of the last path component up to its
  first dot; \<^verbatim>\<open>split\<close> never returns an empty list, so the two subscripts do not raise.
\<close>

definition name_file :: "string \<Rightarrow> string" where
  "name_file input_file = hd (split_on CHR ''.'' (last (split_on CHR ''/'' input_file)))"

definition json_configure ::
  "world \<Rightarrow> string \<Rightarrow> pyval \<Rightarrow> (string \<times> string) list \<Rightarrow> (string \<times> pyval) list
    \<Rightarrow> pyval \<Rightarrow> stmt" where
  "json_configure w input_file format_list parameters connection locale =
     seq [
       new_config w,
       config_set w ''Input'' (Py (PStr input_file)),
       cond (truthy locale) (config_set w ''Locale'' (Py locale)),
       (\<lambda>s. if truthy (output_file s) then config_set w ''Output'' (Py (output_file s)) s
            else seq [
                   (\<lambda>s. (None, s\<lparr>file_out :=
                            Some (path_join (dirname input_file) (name_file input_file @ ''.jasper'')),
                          output_file :=
                            PStr (path_join (dirname input_file) (name_file input_file @ ''.pdf''))\<rparr>)),
                   config_set w ''Output'' (Py (PStr (dirname input_file)))] s),
       config_set w ''OutputFormats'' (AsList format_list),
       cond (parameters \<noteq> []) (config_set w ''Params'' (AsList (render_params parameters))),
       json_set_db_type w connection]"

text \<open>An HTTP request, and the creation of a file with its content.\<close>

definition send :: "world \<Rightarrow> request \<Rightarrow> (response \<Rightarrow> stmt) \<Rightarrow> stmt" where
  "send w rq k s =
     (let s' = s\<lparr>events := events s @ [HttpSend rq]\<rparr>
      in case http_send w rq of Inl e \<Rightarrow> (Some e, s') | Inr resp \<Rightarrow> k resp s')"

definition write_file :: "world \<Rightarrow> string \<Rightarrow> string \<Rightarrow> stmt" where
  "write_file w path content s =
     (case open_raises w path of
        Some m \<Rightarrow> (Some (LibError m), s)
      | None \<Rightarrow> (None, s\<lparr>events := events s @ [FileWrite path content]\<rparr>))"

text \<open>
  Lines 311 to 341. When line 322 finds no \<^verbatim>\<open>'url_method'\<close>, no request is sent and line 332
  reads the unassigned \<^verbatim>\<open>resp\<close>.
\<close>

definition json_fetch :: "world \<Rightarrow> (string \<times> pyval) list \<Rightarrow> stmt" where
  "json_fetch w connection =
     try_except
       (seq [
          compute (subscript connection ''url_method'')
            (\<lambda>m. case m of
                    PStr ms \<Rightarrow>
                      cond (ms \<notin> set FORMATS_METHODS_REQUEST)
                        (raise (NameError ''Invalid method request!''))
                  | _ \<Rightarrow>
                      raise (NameError ([CHR 0x27] @ ''url_method'' @ [CHR 0x27]
                                        @ '' value is not list!''))),
          compute (if has_key connection ''url_params'' then subscript connection ''url_params''
                   else Inr (PDict []))
            (\<lambda>PARAMS.
          compute (if has_key connection ''url_data_post'' then subscript connection ''url_data''
                   else Inr (PDict []))
            (\<lambda>DATA.
          compute (if has_key connection ''url_header'' then subscript connection ''url_header''
                   else Inr (PDict []))
            (\<lambda>HEADER.
          (if has_key connection ''url_method''
           then compute (subscript connection ''url_method'')
                  (\<lambda>method. compute (subscript connection ''url_file'')
                     (\<lambda>url.
                        send w \<lparr>req_method = method, req_url = url, req_data = DATA,
                                req_headers = HEADER, req_params = PARAMS\<rparr>
                          (\<lambda>resp.
                             if status_code resp = 200
                             then compute (json_loads w (resp_text resp))
                                    (\<lambda>data.
                                       seq [
                                         write_file w (path_join (tmp_dir w) ''data_report.json'')
                                           (json_dumps w data),
                                         config_set w ''DataFile''
                                           (JFile (PStr (path_join (tmp_dir w) ''data_report.json'')))])
                             else raise (NameError (''Error request status code: ''
                                                    @ str_int (status_code resp))))))
           else raise (UnboundLocalError ''resp'')))))])
       (reraise ''Error request: '')"

text \<open>Lines 303 to 347.\<close>

definition json_connection :: "world \<Rightarrow> (string \<times> pyval) list \<Rightarrow> stmt" where
  "json_connection w connection =
     cond (connection \<noteq> [])
       (seq [
          cond (\<not> has_key connection ''data_file'' \<and> \<not> has_key connection ''url_file'')
            (raise (NameError ''No data sources were reported'')),
          copy_field w connection ''data_file'' ''DataFile'' JFile,
          cond (has_key connection ''url_file'') (json_fetch w connection),
          copy_field w connection ''json_query'' ''JsonQuery'' Py,
          copy_field w connection ''jsonql_query'' ''JsonQLQuery'' Py])"

text \<open>Lines 349 to 352.\<close>

definition json_classpath :: "world \<Rightarrow> string \<Rightarrow> stmt" where
  "json_classpath w resource =
     (if isfile w resource then jcall w ''jvApplicationClasspath.add'' [Py (PStr (dirname resource))]
      else if isdir w resource then jcall w ''jvApplicationClasspath.add'' [Py (PStr resource)]
      else skip)"

text \<open>
  \<^verbatim>\<open>self.compile(input_file)\<close>: the callee has a \<^verbatim>\<open>config\<close> of its own, and the caller's
  is unchanged when the call is over.
\<close>

definition call_compile :: "world \<Rightarrow> pyval \<Rightarrow> stmt" where
  "call_compile w report s = (case compile w report s of (r, s') \<Rightarrow> (r, s'\<lparr>config := config s\<rparr>))"

text \<open>Lines 354 to 359.\<close>

definition json_report :: "world \<Rightarrow> string \<Rightarrow> stmt" where
  "json_report w input_file =
     seq [
       (\<lambda>s. jcall w ''jvReport'' [Ref ''config'', JFile (getInput s)] s),
       call_compile w (PStr input_file),
       (\<lambda>s. (None, s\<lparr>jparameters := []\<rparr>)),
       cond (has_ask_filter w)
         (seq [
            (\<lambda>s. jcall w ''report.promptForParams''
                   [Ref ''reportParams'', JMap (jparameters s),
                    Ref ''report.jasperReport.getName()''] s),
            (\<lambda>s. (None, s\<lparr>jparameters := prompt_result w\<rparr>))])]"

text \<open>\<^verbatim>\<open>if key in connection: parameters.put(name, self.jvLocale(connection[key]))\<close>.\<close>

definition put_param :: "world \<Rightarrow> (string \<times> pyval) list \<Rightarrow> string \<Rightarrow> string \<Rightarrow> stmt" where
  "put_param w connection key name =
     cond (has_key connection key)
       (compute (subscript connection key)
          (\<lambda>v. seq [
                 jcall w ''parameters.put'' [Py (PStr name), JLocale v],
                 (\<lambda>s. (None, s\<lparr>jparameters := (name, JLocale v) # jparameters s\<rparr>))]))"

text \<open>
  Lines 360 to 385. \<^verbatim>\<open>self.jvDsType.jsonql.equals(config.getDbType())\<close> is true exactly when
  the data-source type of the configuration is \<^verbatim>\<open>jsonql\<close>.
\<close>

definition json_fill :: "world \<Rightarrow> (string \<times> pyval) list \<Rightarrow> stmt" where
  "json_fill w connection =
     try_except
       (\<lambda>s. if getDbType w s = Some Jsonql
            then seq [
                   jcall w ''jvDb'' [],
                   jcall w ''db.getJsonQLDataSource'' [Ref ''config''],
                   put_param w connection ''json_locale'' ''JSON_LOCALE'',
                   put_param w connection ''json_date_pattern'' ''JSON_DATE_PATTERN'',
                   put_param w connection ''json_number_pattern'' ''JSON_NUMBER_PATTERN'',
                   put_param w connection ''json_time_zone'' ''JSON_TIME_ZONE'',
                   (\<lambda>s. case file_out s of
                          None \<Rightarrow> raise (UnboundLocalError ''file_out'') s
                        | Some fo \<Rightarrow>
                            jcall w ''jvJasperFillManager.fillReport''
                              [Py (PStr fo), JMap (jparameters s), Ref ''ds''] s),
                   (\<lambda>s. jcall w ''jvJasperExportManager.exportReportToPdfFile''
                          [Ref ''jasperPrint'', Py (output_file s)] s)] s
            else raise (NameError ''Invalid json input!'') s)
       (reraise ''Error: '')"

text \<open>\<^verbatim>\<open>with tempfile.TemporaryDirectory() as tmp_dir\<close>: the directory is removed on every exit.\<close>

definition emit :: "event \<Rightarrow> stmt" where
  "emit e s = (None, s\<lparr>events := events s @ [e]\<rparr>)"

definition with_tmp_dir :: "world \<Rightarrow> stmt \<Rightarrow> stmt" where
  "with_tmp_dir w block =
     seq [emit (TempDirCreate (tmp_dir w)), try_finally block (emit (TempDirRemove (tmp_dir w)))]"

definition process_json ::
  "world \<Rightarrow> string \<Rightarrow> pyval \<Rightarrow> pyval \<Rightarrow> (string \<times> string) list \<Rightarrow> (string \<times> pyval) list
    \<Rightarrow> pyval \<Rightarrow> string \<Rightarrow> stmt" where
  "process_json w input_file output format_list parameters connection locale resource =
     seq [
       (\<lambda>s. (None, s\<lparr>output_file := output, file_out := None\<rparr>)),
       with_tmp_dir w
         (seq [
            process_json_validate input_file format_list,
            try_except
              (seq [
                 json_configure w input_file format_list parameters connection locale,
                 json_connection w connection,
                 json_classpath w resource,
                 json_report w input_file,
                 json_fill w connection])
              (reraise ''Error: '')])]"

section \<open>Concrete worlds and states\<close>

text \<open>
  A world in which no foreign call raises, no resource path exists, the HTTP endpoint
  answers 200 with an empty JSON object and a \<^verbatim>\<open>Config\<close> without a data-source type
  answers \<^verbatim>\<open>null\<close>; and a state at the start of a call.
\<close>

definition quiet_world :: world where
  "quiet_world =
     \<lparr>jvm_raises = (\<lambda>tr name args. None),
      default_db_type = None,
      has_ask_filter = False,
      prompt_result = [],
      isfile = (\<lambda>p. False),
      isdir = (\<lambda>p. False),
      glob = (\<lambda>p. []),
      JDBC_FILE = ''/opt/pyreportjasper/jasperstarter/jdbc/postgresql.jar'',
      tmp_dir = ''/tmp/tmpq1w2e3'',
      http_send = (\<lambda>rq. Inr \<lparr>status_code = 200, resp_text = ''{}''\<rparr>),
      json_loads = (\<lambda>t. Inr (PDict [])),
      json_dumps = (\<lambda>v. ''{}''),
      open_raises = (\<lambda>p. None),
      int_max_str_digits = 4300\<rparr>"

definition init_state :: state where
  "init_state =
     \<lparr>events = [], sys_in = Handle 0, sys_out = Handle 1, config = [], file_out = None,
      output_file = PBool False, jparameters = []\<rparr>"

text \<open>The engine never raises.\<close>

definition quiet :: "world \<Rightarrow> bool" where
  "quiet w = (\<forall>tr name args. jvm_raises w tr name args = None)"

text \<open>A world in which exactly the foreign calls of one name raise, with the message \<open>m\<close>.\<close>

definition raising_world :: "string \<Rightarrow> string \<Rightarrow> world" where
  "raising_world name m =
     quiet_world\<lparr>jvm_raises := (\<lambda>tr n args. if n = name then Some m else None)\<rparr>"

text \<open>A world whose HTTP endpoint answers with the given status code and text.\<close>

definition answering_world :: "int \<Rightarrow> string \<Rightarrow> world" where
  "answering_world code txt =
     quiet_world\<lparr>http_send := (\<lambda>rq. Inr \<lparr>status_code = code, resp_text = txt\<rparr>)\<rparr>"

text \<open>A state in which the configuration has the data-source type \<^verbatim>\<open>jsonql\<close>.\<close>

definition jsonql_state :: state where
  "jsonql_state =
     init_state\<lparr>config := [(''DbType'', DsType Jsonql)], file_out := Some ''report.jasper'',
                output_file := PStr ''report.pdf''\<rparr>"

text \<open>A connection that fetches its data over HTTP with the given method.\<close>

definition fetch_connection :: "string \<Rightarrow> (string \<times> pyval) list" where
  "fetch_connection method =
     [(''driver'', PStr ''jsonql''), (''url_file'', PStr ''http://example.org/data''),
      (''url_method'', PStr method)]"

section \<open>Relations between the states of a run\<close>

text \<open>
  \<open>steps R c\<close>: from every state, \<open>c\<close> ends (normally or not) in a state related by \<open>R\<close>.
  \<open>noraise c\<close>: \<open>c\<close> ends normally from every state.
\<close>

definition steps :: "(state \<Rightarrow> state \<Rightarrow> bool) \<Rightarrow> stmt \<Rightarrow> bool" where
  "steps R c = (\<forall>s. R s (snd (c s)))"

definition noraise :: "stmt \<Rightarrow> bool" where
  "noraise c = (\<forall>s. fst (c s) = None)"

text \<open>
  \<open>grows ok s s'\<close>: the events of \<open>s'\<close> are those of \<open>s\<close> followed by events that all satisfy
  \<open>ok\<close>. \<open>calls_only P\<close> holds of an event unless it is a foreign call whose name fails \<open>P\<close>.
  \<open>no_run\<close> holds of every name but \<^verbatim>\<open>report.fill\<close> and the names \<^verbatim>\<open>report.export...\<close>.
\<close>

definition grows :: "(event \<Rightarrow> bool) \<Rightarrow> state \<Rightarrow> state \<Rightarrow> bool" where
  "grows ok s s' = (\<exists>es. events s' = events s @ es \<and> list_all ok es)"

definition calls_only :: "(string \<Rightarrow> bool) \<Rightarrow> event \<Rightarrow> bool" where
  "calls_only P e = (case e of Call n a out \<Rightarrow> P n | _ \<Rightarrow> True)"

definition no_run :: "string \<Rightarrow> bool" where
  "no_run n = (n \<noteq> ''report.fill'' \<and> take 13 n \<noteq> ''report.export'')"

definition any_event :: "event \<Rightarrow> bool" where
  "any_event e = True"

text \<open>
  \<open>no_fill\<close> holds of every name but those of the fill and the export of \<^verbatim>\<open>process_json\<close>.
\<close>

definition no_fill :: "string \<Rightarrow> bool" where
  "no_fill n = (n \<noteq> ''jvJasperFillManager.fillReport''
               \<and> n \<noteq> ''jvJasperExportManager.exportReportToPdfFile'')"

text \<open>\<open>same f s s'\<close>: the observation \<open>f\<close> has the same value in both states.\<close>

definition same :: "(state \<Rightarrow> 'a) \<Rightarrow> state \<Rightarrow> state \<Rightarrow> bool" where
  "same f s s' = (f s' = f s)"

definition handles :: "state \<Rightarrow> stream \<times> stream" where
  "handles s = (sys_in s, sys_out s)"

text \<open>
  Two more observations: the data-source type set on the configuration, and what the fill
  of \<^verbatim>\<open>process_json\<close> reads besides the configuration.
\<close>

definition db_type_field :: "state \<Rightarrow> jarg option" where
  "db_type_field s = map_of (config s) ''DbType''"

text \<open>The port set on the configuration.\<close>

definition port_field :: "state \<Rightarrow> jarg option" where
  "port_field s = map_of (config s) ''DbPort''"

definition paths :: "state \<Rightarrow> stream \<times> string option \<times> pyval" where
  "paths s = (sys_out s, file_out s, output_file s)"



section \<open>Facts about statements\<close>

lemma cond_simps: "cond True c = c" "cond False c = skip"
  by (simp_all add: cond_def)

lemma skip_apply: "skip s = (None, s)"
  by (simp add: skip_def)

lemma raise_apply: "raise e s = (Some e, s)"
  by (simp add: raise_def)

lemma compute_simps: "compute (Inl e) k s = (Some e, s)" "compute (Inr v) k s = k v s"
  by (simp_all add: compute_def)

lemma has_key_iff: "has_key d k \<longleftrightarrow> (\<exists>v. map_of d k = Some v)"
  by (simp add: has_key_def)

lemma subscript_Some: "map_of d k = Some v \<Longrightarrow> subscript d k = Inr v"
  by (simp add: subscript_def)

lemma subscript_None: "\<not> has_key d k \<Longrightarrow> subscript d k = Inl (KeyError k)"
  by (simp add: subscript_def has_key_def)

lemma seq_Cons_if: "seq (c # cs) s = (if fst (c s) = None then seq cs (snd (c s)) else c s)"
  by (cases "c s") (auto split: option.splits)

declare seq.simps(2) [simp del]

lemma seq_single: "seq [c] s = c s"
  by (cases "c s") (auto simp: seq_Cons_if split: option.splits)

lemma seq_Cons2:
  "seq (c # d # cs) s
   = (case c s of (None, s') \<Rightarrow> seq (d # cs) s' | (Some e, s') \<Rightarrow> (Some e, s'))"
  by (simp add: seq.simps(2))

lemmas seq_eval = seq.simps(1) seq_single seq_Cons2

lemma seq_Cons2_if:
  "seq (c # d # cs) s = (if fst (c s) = None then seq (d # cs) (snd (c s)) else c s)"
  by (rule seq_Cons_if)

lemma seq_append:
  "seq (xs @ ys) s = (if fst (seq xs s) = None then seq ys (snd (seq xs s)) else seq xs s)"
  by (induction xs arbitrary: s) (auto simp: seq_Cons_if)

lemma seq_snoc:
  "seq (cs @ [c]) s = (if fst (seq cs s) = None then c (snd (seq cs s)) else seq cs s)"
  by (simp add: seq_append seq_single)

lemma seq_cons_snoc:
  "seq (a # (cs @ [e])) s
   = (if fst (a s) = None
      then (if fst (seq cs (snd (a s))) = None then e (snd (seq cs (snd (a s))))
            else seq cs (snd (a s)))
      else a s)"
  by (simp only: seq_Cons_if [of a] seq_snoc)

lemma seq_raises: "\<exists>c \<in> set cs. \<forall>s. fst (c s) \<noteq> None \<Longrightarrow> fst (seq cs s) \<noteq> None"
proof (induction cs arbitrary: s)
  case Nil
  then show ?case by simp
next
  case (Cons a cs)
  show ?case
  proof (cases "fst (a s) = None")
    case True
    then have "\<not> (\<forall>s. fst (a s) \<noteq> None)" by blast
    with Cons.prems have "\<exists>c \<in> set cs. \<forall>s. fst (c s) \<noteq> None"
      by (metis set_ConsD)
    then have "fst (seq cs (snd (a s))) \<noteq> None" by (rule Cons.IH)
    with True show ?thesis by (simp add: seq_Cons_if)
  next
    case False
    then show ?thesis by (auto simp add: seq_Cons_if)
  qed
qed

lemma try_except_reraise:
  "try_except b (reraise p) s =
     (case b s of
        (None, s') \<Rightarrow> (None, s')
      | (Some e, s') \<Rightarrow> (Some (NameError (p @ str_exn e)), s'))"
  by (simp add: try_except_def reraise_def raise_def split: prod.splits option.splits)

lemma snd_try_except_reraise: "snd (try_except b (reraise p) s) = snd (b s)"
  by (simp add: try_except_reraise split: prod.splits option.splits)

lemma fst_try_except_reraise:
  "fst (try_except b (reraise p) s) = map_option (\<lambda>e. NameError (p @ str_exn e)) (fst (b s))"
  by (simp add: try_except_reraise split: prod.splits option.splits)

subsection \<open>Relations kept by statements\<close>

lemma reflp_grows: "reflp (grows ok)"
  by (auto simp: reflp_def grows_def)

lemma transp_grows: "transp (grows ok)"
  by (auto simp: transp_def grows_def)

lemma grows_refl: "grows ok s s"
  by (simp add: grows_def)

lemma reflp_same: "reflp (same f)"
  by (simp add: reflp_def same_def)

lemma transp_same: "transp (same f)"
  by (simp add: transp_def same_def)



lemma steps_skip: "reflp R \<Longrightarrow> steps R skip"
  by (simp add: steps_def skip_def reflp_def)

lemma steps_raise: "reflp R \<Longrightarrow> steps R (raise e)"
  by (simp add: steps_def raise_def reflp_def)

lemma steps_seq: "reflp R \<Longrightarrow> transp R \<Longrightarrow> list_all (steps R) cs \<Longrightarrow> steps R (seq cs)"
proof (induction cs)
  case Nil
  then show ?case by (simp add: steps_def reflp_def)
next
  case (Cons c cs)
  then have c: "steps R c" and cs: "steps R (seq cs)" by simp_all
  show ?case unfolding steps_def
  proof
    fix s
    show "R s (snd (seq (c # cs) s))"
    proof (cases "fst (c s) = None")
      case True
      then have "seq (c # cs) s = seq cs (snd (c s))" by (simp add: seq_Cons_if)
      moreover have "R s (snd (c s))" using c by (simp add: steps_def)
      moreover have "R (snd (c s)) (snd (seq cs (snd (c s))))" using cs by (simp add: steps_def)
      ultimately show ?thesis using \<open>transp R\<close> by (metis transpD)
    next
      case False
      then have "seq (c # cs) s = c s" by (auto simp add: seq_Cons_if)
      then show ?thesis using c by (simp add: steps_def)
    qed
  qed
qed

lemma steps_cond: "reflp R \<Longrightarrow> steps R c \<Longrightarrow> steps R (cond b c)"
  by (simp add: cond_def steps_skip)

lemma steps_compute: "reflp R \<Longrightarrow> (\<And>v. steps R (k v)) \<Longrightarrow> steps R (compute r k)"
  by (cases r) (auto simp: steps_def compute_def reflp_def)

lemma steps_try_except:
  "transp R \<Longrightarrow> steps R b \<Longrightarrow> (\<And>e. steps R (h e)) \<Longrightarrow> steps R (try_except b h)"
  unfolding steps_def try_except_def
  by (auto split: prod.splits option.splits) (metis snd_conv transpD)+

lemma steps_try_finally:
  "transp R \<Longrightarrow> steps R b \<Longrightarrow> steps R f \<Longrightarrow> steps R (try_finally b f)"
  unfolding steps_def try_finally_def
  by (auto split: prod.splits option.splits) (metis snd_conv transpD)+

lemma steps_state: "(\<And>s0. steps R (f s0)) \<Longrightarrow> steps R (\<lambda>s. f s s)"
  by (simp add: steps_def)

subsection \<open>Statements that end normally when the engine never raises\<close>

lemma noraise_seq: "list_all noraise cs \<Longrightarrow> noraise (seq cs)"
  by (induction cs) (auto simp: noraise_def seq_Cons_if)

lemma noraise_skip: "noraise skip"
  by (simp add: noraise_def skip_def)

lemma noraise_cond: "noraise c \<Longrightarrow> noraise (cond b c)"
  by (simp add: cond_def noraise_skip)

lemma noraise_jcall: "quiet w \<Longrightarrow> noraise (jcall w n a)"
  by (simp add: noraise_def jcall_def quiet_def Let_def)

lemma noraise_config_set: "quiet w \<Longrightarrow> noraise (config_set w f v)"
  by (simp add: noraise_def config_set_def jcall_def quiet_def Let_def seq_eval)

lemma noraise_new_config: "quiet w \<Longrightarrow> noraise (new_config w)"
  by (simp add: noraise_def new_config_def jcall_def quiet_def Let_def seq_eval)

lemma noraise_compute_subscript:
  "has_key d k \<Longrightarrow> (\<And>v. noraise (f v)) \<Longrightarrow> noraise (compute (subscript d k) f)"
  by (auto simp: noraise_def has_key_iff subscript_def compute_def)

lemma noraise_copy_field: "quiet w \<Longrightarrow> noraise (copy_field w d k f conv)"
  using noraise_config_set [of w f] noraise_skip
  by (auto simp: copy_field_def cond_def has_key_iff subscript_def compute_def noraise_def)

subsection \<open>The events and the stream handles of the basic statements\<close>

lemma steps_jcall_grows: "P n \<Longrightarrow> steps (grows (calls_only P)) (jcall w n a)"
  by (auto simp: steps_def grows_def jcall_def calls_only_def Let_def split: option.splits)

lemma steps_config_set_grows:
  "P (''config.set'' @ f) \<Longrightarrow> steps (grows (calls_only P)) (config_set w f v)"
  by (auto simp: steps_def grows_def config_set_def jcall_def calls_only_def Let_def seq_eval
      split: option.splits)

lemma steps_new_config_grows: "P ''jvConfig'' \<Longrightarrow> steps (grows (calls_only P)) (new_config w)"
  by (auto simp: steps_def grows_def new_config_def jcall_def calls_only_def Let_def seq_eval
      split: option.splits)

lemma steps_copy_field_grows:
  "P (''config.set'' @ f) \<Longrightarrow> steps (grows (calls_only P)) (copy_field w d k f conv)"
  unfolding copy_field_def
  by (intro steps_cond steps_compute steps_config_set_grows reflp_grows)


lemma steps_config_set_handles: "steps (same handles) (config_set w f v)"
  by (auto simp: steps_def same_def handles_def config_set_def jcall_def Let_def seq_eval
      split: option.splits)

lemma steps_new_config_handles: "steps (same handles) (new_config w)"
  by (auto simp: steps_def same_def handles_def new_config_def jcall_def Let_def seq_eval
      split: option.splits)

lemma steps_copy_field_handles: "steps (same handles) (copy_field w d k f conv)"
  unfolding copy_field_def
  by (intro steps_cond steps_compute steps_config_set_handles reflp_same)


lemma steps_jcall_any: "steps (grows any_event) (jcall w n a)"
  by (auto simp: steps_def grows_def jcall_def any_event_def Let_def list_all_iff
      split: option.splits)

lemma steps_config_set_any: "steps (grows any_event) (config_set w f v)"
  by (auto simp: steps_def grows_def config_set_def jcall_def any_event_def Let_def seq_eval list_all_iff
      split: option.splits)

lemma steps_copy_field_any: "steps (grows any_event) (copy_field w d k f conv)"
  unfolding copy_field_def
  by (intro steps_cond steps_compute steps_config_set_any reflp_grows)

lemma steps_streams_any:
  "steps (grows any_event) flush_out" "steps (grows any_event) (setOut h)"
  "steps (grows any_event) (setIn h)"
  by (simp_all add: steps_def grows_def flush_out_def setOut_def setIn_def any_event_def)

lemma steps_jcall_port: "steps (same port_field) (jcall w n a)"
  by (auto simp: steps_def same_def port_field_def jcall_def Let_def split: option.splits)

lemma steps_config_set_port:
  "f \<noteq> ''DbPort'' \<Longrightarrow> steps (same port_field) (config_set w f v)"
  by (auto simp: steps_def same_def port_field_def config_set_def jcall_def Let_def seq_eval
      split: option.splits)

lemma steps_copy_field_port:
  "f \<noteq> ''DbPort'' \<Longrightarrow> steps (same port_field) (copy_field w d k f conv)"
  unfolding copy_field_def
  by (intro steps_cond steps_compute steps_config_set_port reflp_same)

lemma steps_streams_port:
  "steps (same port_field) flush_out" "steps (same port_field) (setOut h)"
  "steps (same port_field) (setIn h)"
  by (simp_all add: steps_def same_def port_field_def flush_out_def setOut_def setIn_def)

text \<open>Equations that evaluate a run on concrete inputs.\<close>

lemmas run_unfold =
  cond_def skip_def raise_def compute_def try_except_def try_finally_def
  new_config_def config_set_def jcall_def flush_out_def setOut_def setIn_def reraise_def Let_def
  seq_eval has_key_def subscript_def copy_field_def getInput_def getDbType_def emit_def send_def
  write_file_def

lemmas py_int_eval =
  int_of_str_def to_ascii_def in_number_def is_space_def is_digit_def digit_val_def
  digits_value_def invalid_literal_def too_many_digits_def py_repr_def repr_char_def Let_def

section \<open>\<^verbatim>\<open>compile\<close>: the check of the path, the flush and the wrapping of failures\<close>

lemmas compile_unfold =
  compile_def cond_simps skip_apply raise_apply try_except_def try_finally_def
  new_config_def config_set_def jcall_def flush_out_def reraise_def Let_def seq_eval

lemma compile_falsy:
  "\<not> truthy report \<Longrightarrow> compile w report s = (Some (NameError ''No input file!''), s)"
  by (simp add: compile_def cond_simps raise_apply seq_eval)

lemma compile_flush:
  "truthy report \<Longrightarrow>
   \<exists>es. events (snd (compile w report s))
         = events s @ es @ [Call ''jvSystem.out.flush'' [] (sys_out s)]"
  by (auto simp add: compile_unfold split: option.splits)

lemma compile_wraps:
  "truthy report \<Longrightarrow>
   fst (compile w report s) = None \<or>
   (\<exists>m tr name args. jvm_raises w tr name args = Some m
      \<and> fst (compile w report s) = Some (NameError (''Error: '' @ m)))"
  by (auto simp add: compile_unfold split: option.splits)

lemma compile_quiet:
  "truthy report \<Longrightarrow> quiet w \<Longrightarrow>
   fst (compile w report s) = None
   \<and> Call ''report.compileToFile'' [] (sys_out s) \<in> set (events (snd (compile w report s)))"
  by (auto simp add: compile_unfold quiet_def split: option.splits)

lemma compile_fails:
  "truthy report \<Longrightarrow>
   \<forall>tr n a. jvm_raises w tr n a = (if n = ''report.compileToFile'' then Some m else None) \<Longrightarrow>
   fst (compile w report s) = Some (NameError (''Error: '' @ m))"
  by (auto simp add: compile_unfold split: option.splits)

text \<open>
  Claim C9. \<^verbatim>\<open>compile\<close> with a falsy template path raises \<^verbatim>\<open>NameError('No input file!')\<close>
  (the spec's InvalidArgument) and leaves the state as it was: no foreign call is made.
  With a truthy path, whatever the engine does: the last event of the call is the flush of
  the runtime's standard output; the call returns 0 or raises \<^verbatim>\<open>NameError('Error: ' + m)\<close>
  (the spec's CompileError) where \<open>m\<close> is the message of an exception the engine raised;
  when \<^verbatim>\<open>compileToFile\<close> raises with message \<open>m\<close> the call raises exactly
  \<^verbatim>\<open>NameError('Error: ' + m)\<close>; and when the engine raises nothing, \<^verbatim>\<open>compileToFile\<close> has been
  called and the call returns 0.
\<close>

theorem compile_contract:
  "(\<not> truthy report \<longrightarrow> compile w report s = (Some (NameError ''No input file!''), s))
   \<and> (truthy report \<longrightarrow>
        (\<exists>es. events (snd (compile w report s))
              = events s @ es @ [Call ''jvSystem.out.flush'' [] (sys_out s)])
        \<and> (fst (compile w report s) = None
           \<or> (\<exists>m tr name args. jvm_raises w tr name args = Some m
                \<and> fst (compile w report s) = Some (NameError (''Error: '' @ m))))
        \<and> ((\<forall>tr n a. jvm_raises w tr n a
                      = (if n = ''report.compileToFile'' then Some m else None))
             \<longrightarrow> fst (compile w report s) = Some (NameError (''Error: '' @ m)))
        \<and> (quiet w \<longrightarrow>
             fst (compile w report s) = None
             \<and> Call ''report.compileToFile'' [] (sys_out s)
                 \<in> set (events (snd (compile w report s)))))"
  using compile_falsy compile_flush compile_wraps compile_fails compile_quiet by blast

theorem compile_contract_witness:
  "compile quiet_world (PStr []) init_state = (Some (NameError ''No input file!''), init_state)
   \<and> compile quiet_world PNone init_state = (Some (NameError ''No input file!''), init_state)
   \<and> fst (compile quiet_world (PStr ''report.jrxml'') init_state) = None
   \<and> fst (compile (raising_world ''report.compileToFile'' ''boom'') (PStr ''report.jrxml'')
            init_state) = Some (NameError ''Error: boom'')"
  using compile_contract [of "PStr []" quiet_world init_state]
    compile_contract [of PNone quiet_world init_state]
    compile_contract [of "PStr ''report.jrxml''" quiet_world init_state]
    compile_contract [of "PStr ''report.jrxml''" "raising_world ''report.compileToFile'' ''boom''"
      init_state "''boom''"]
  by (simp add: quiet_def quiet_world_def raising_world_def)

section \<open>\<^verbatim>\<open>process\<close>: the validation of the format list\<close>

lemma process_validate_state: "snd (process_validate i f s) = s"
  by (auto simp: process_validate_def cond_def skip_def raise_def seq_eval split: pyval.splits)

lemma process_validate_pass:
  "i \<noteq> [] \<Longrightarrow> list_all (\<lambda>k. k \<in> set (map PStr FORMATS)) ks \<Longrightarrow>
   process_validate i (PList ks) s = (None, s)"
  by (simp add: process_validate_def cond_def skip_def raise_def seq_eval list_ex_iff list_all_iff)

lemma process_validate_bad_format:
  "i \<noteq> [] \<Longrightarrow> \<not> list_all (\<lambda>k. k \<in> set (map PStr FORMATS)) ks \<Longrightarrow>
   process_validate i (PList ks) s = (Some (NameError ''Invalid format!''), s)"
  by (simp add: process_validate_def cond_def skip_def raise_def seq_eval list_ex_iff list_all_iff)

lemma process_validate_not_list:
  "i \<noteq> [] \<Longrightarrow> \<forall>ks. f \<noteq> PList ks \<Longrightarrow>
   process_validate i f s
   = (Some (NameError ([CHR 0x27] @ ''format_list'' @ [CHR 0x27] @ '' value is not list!'')), s)"
  by (cases f) (simp_all add: process_validate_def cond_def skip_def raise_def seq_eval)

lemma process_validate_fails:
  "fst (process_validate i f s) = Some e \<Longrightarrow> process w i out f p c l r s = (Some e, s)"
  using process_validate_state [of i f s]
  by (cases "process_validate i f s") (simp add: process_def seq_eval)

lemma process_validated:
  "fst (process_validate i f s) = None \<Longrightarrow>
   process w i out f p c l r s =
   try_except
     (seq [process_configure w i out f p c l, process_connection w c, process_classpath w r,
           process_run w f])
     (reraise ''Error: '') s"
  using process_validate_state [of i f s]
  by (cases "process_validate i f s") (simp add: process_def seq_eval split: prod.splits option.splits)

lemmas process_unfold =
  process_def process_validate_def process_configure_def process_connection_def set_port_def
  process_classpath_def process_run_def export_step_def export_method_def process_driver_def
  FORMATS_def render_params_def dirname_def path_join_def

text \<open>
  Claim C2, as stated, fails on the empty list: line 118 tests the elements only, so
  \<^verbatim>\<open>process\<close> with \<^verbatim>\<open>format_list=[]\<close> passes the validation, goes on to the engine, fills the
  report, exports nothing and returns 0.
\<close>

theorem process_accepts_empty_format_list:
  "process_validate ''report.jrxml'' (PList []) init_state = (None, init_state)
   \<and> fst (process quiet_world ''report.jrxml'' (PBool False) (PList []) [] [] (PStr ''pt_BR'') []
           init_state) = None
   \<and> Call ''report.fill'' [] BufferStream
       \<in> set (events (snd (process quiet_world ''report.jrxml'' (PBool False) (PList []) [] []
                              (PStr ''pt_BR'') [] init_state)))"
  by (simp add: process_unfold run_unfold quiet_world_def init_state_def)

text \<open>
  Claim C2, amended. For a call of \<^verbatim>\<open>process\<close> with a non-empty input path: every list,
  the empty one included, whose elements all belong to the thirteen formats passes the
  validation; a list with an element outside them makes the call raise
  \<^verbatim>\<open>NameError('Invalid format!')\<close>, and an argument that is not a list makes it raise
  \<^verbatim>\<open>NameError("'format_list' value is not list!")\<close> (the spec's InvalidFormat), in both cases
  with the state as it was: no foreign call has been made.
\<close>

theorem process_format_validation:
  "input_file \<noteq> [] \<Longrightarrow>
   ((\<forall>k \<in> set keys. k \<in> PStr ` set FORMATS) \<longrightarrow>
      process_validate input_file (PList keys) s = (None, s))
   \<and> ((\<exists>k \<in> set keys. k \<notin> PStr ` set FORMATS) \<longrightarrow>
        process w input_file out (PList keys) parameters db_connection locale resource s
        = (Some (NameError ''Invalid format!''), s))
   \<and> ((\<forall>ks. format_list \<noteq> PList ks) \<longrightarrow>
        process w input_file out format_list parameters db_connection locale resource s
        = (Some (NameError ([CHR 0x27] @ ''format_list'' @ [CHR 0x27] @ '' value is not list!'')),
           s))"
  using process_validate_pass [of input_file keys s]
    process_validate_bad_format [of input_file keys s]
    process_validate_not_list [of input_file format_list s]
    process_validate_fails [of input_file "PList keys" s _ w out parameters db_connection
      "locale" resource]
    process_validate_fails [of input_file format_list s _ w out parameters db_connection
      "locale" resource]
  by (auto simp add: list_all_iff)

theorem process_format_validation_witness:
  "process_validate ''report.jrxml'' (PList [PStr ''pdf'', PStr ''xls'']) init_state
     = (None, init_state)
   \<and> process quiet_world ''report.jrxml'' (PBool False) (PList [PStr ''pdf'', PStr ''gif''])
         [] [] (PStr ''pt_BR'') [] init_state
       = (Some (NameError ''Invalid format!''), init_state)
   \<and> process quiet_world ''report.jrxml'' (PBool False) (PStr ''pdf'') [] [] (PStr ''pt_BR'') []
         init_state
       = (Some (NameError ([CHR 0x27] @ ''format_list'' @ [CHR 0x27] @ '' value is not list!'')),
          init_state)"
  using process_format_validation [of "''report.jrxml''" "[PStr ''pdf'', PStr ''xls'']" init_state]
    process_format_validation [of "''report.jrxml''" "[PStr ''pdf'', PStr ''gif'']" init_state
      quiet_world "PBool False" "[]" "[]" "PStr ''pt_BR''" "[]" "PStr ''pdf''"]
  by (simp add: FORMATS_def)

section \<open>\<^verbatim>\<open>process\<close>: the port of the connection\<close>

lemma set_port_raises:
  "map_of c ''port'' = Some v \<Longrightarrow> py_int (int_max_str_digits w) v = Inl e \<Longrightarrow>
   set_port w c s = (Some e, s)"
  by (simp add: set_port_def has_key_def cond_def subscript_def compute_def)

lemma set_port_sets:
  "map_of c ''port'' = Some v \<Longrightarrow> py_int (int_max_str_digits w) v = Inr n \<Longrightarrow>
   set_port w c = config_set w ''DbPort'' (Py (PInt n))"
  by (rule ext) (simp add: set_port_def has_key_def cond_def subscript_def compute_def)

lemma set_port_call:
  assumes "map_of c ''port'' = Some v" "py_int (int_max_str_digits w) v = Inr n"
  shows "events (snd (set_port w c s))
           = events s @ [Call ''config.setDbPort'' [Py (PInt n)] (sys_out s)]"
    and "fst (set_port w c s)
           = map_option ForeignError (jvm_raises w (events s) ''config.setDbPort'' [Py (PInt n)])"
    and "fst (set_port w c s) = None \<Longrightarrow>
         config (snd (set_port w c s)) = (''DbPort'', Py (PInt n)) # config s"
    and "sys_out (snd (set_port w c s)) = sys_out s"
  by (auto simp add: set_port_sets [OF assms] config_set_def jcall_def Let_def seq_eval
      split: option.splits)

lemma process_connection_port_raises:
  assumes "map_of c ''port'' = Some v" "py_int (int_max_str_digits w) v = Inl e"
  shows "fst (process_connection w c s) \<noteq> None"
proof -
  have ne: "c \<noteq> []" using assms by auto
  have "\<forall>s. fst (set_port w c s) \<noteq> None" using set_port_raises [OF assms] by simp
  then have "fst (seq [
          copy_field w c ''username'' ''DbUser'' Py,
          copy_field w c ''password'' ''DbPasswd'' Py,
          copy_field w c ''host'' ''DbHost'' Py,
          copy_field w c ''database'' ''DbName'' Py,
          set_port w c,
          copy_field w c ''jdbc_dir'' ''JdbcDir'' JFile,
          copy_field w c ''db_sid'' ''DbSid'' Py,
          copy_field w c ''xml_xpath'' ''XmlXpath'' Py,
          copy_field w c ''data_file'' ''DataFile'' JFile,
          copy_field w c ''json_query'' ''JsonQuery'' Py,
          copy_field w c ''jsonql_query'' ''JsonQLQuery'' Py,
          cond (has_key c ''csv_first_row'')
            (config_set w ''CsvFirstRow'' (Py (PBool True))),
          copy_field w c ''csv_columns'' ''CsvColumns'' Py,
          copy_field w c ''csv_record_del'' ''CsvRecordDel'' Py,
          copy_field w c ''csv_field_del'' ''CsvFieldDel'' Py,
          copy_field w c ''csv_charset'' ''CsvCharset'' Py] s) \<noteq> None"
    by (intro seq_raises bexI [of _ "set_port w c"]) simp_all
  then show ?thesis
    unfolding process_connection_def using ne by (simp add: cond_simps)
qed

lemma process_connection_port_quiet:
  assumes "map_of c ''port'' = Some v" "py_int (int_max_str_digits w) v = Inl e" "quiet w"
  shows "fst (process_connection w c s) = Some e"
proof -
  have ne: "c \<noteq> []" using assms by auto
  note nr = noraise_copy_field [OF \<open>quiet w\<close>, unfolded noraise_def, rule_format]
  show ?thesis
    unfolding process_connection_def using ne
    by (simp add: cond_simps seq_Cons_if nr set_port_raises [OF assms(1,2)])
qed

lemma steps_set_port:
  "P ''config.setDbPort'' \<Longrightarrow> steps (grows (calls_only P)) (set_port w c)"
  unfolding set_port_def
  by (intro steps_cond steps_compute steps_config_set_grows reflp_grows) simp

lemma steps_process_connection: "steps (grows (calls_only no_run)) (process_connection w c)"
  unfolding process_connection_def
  by (intro steps_cond steps_seq reflp_grows transp_grows)
     (simp add: steps_set_port steps_copy_field_grows steps_cond steps_config_set_grows
        reflp_grows no_run_def)

lemma steps_process_configure:
  "steps (grows (calls_only no_run)) (process_configure w i out f p c l)"
  unfolding process_configure_def
  by (intro steps_seq reflp_grows transp_grows)
     (auto simp add: steps_new_config_grows steps_config_set_grows steps_cond steps_skip
        reflp_grows no_run_def
       split: option.splits intro!: steps_compute)

lemma noraise_process_driver:
  "quiet w \<Longrightarrow>
   noraise (case process_driver d of
              Some t \<Rightarrow> config_set w ''DbType'' (DsType t)
            | None \<Rightarrow> skip)"
  by (cases "process_driver d") (simp_all add: noraise_skip noraise_config_set)

lemma noraise_process_configure: "quiet w \<Longrightarrow> noraise (process_configure w i out f p c l)"
  unfolding process_configure_def
  by (intro noraise_seq)
     (simp add: noraise_new_config noraise_config_set noraise_cond noraise_compute_subscript
        noraise_process_driver)

lemma process_body_port:
  assumes "map_of c ''port'' = Some v" "py_int (int_max_str_digits w) v = Inl e"
  shows "fst ((seq [process_configure w i out f p c l, process_connection w c,
                 process_classpath w r, process_run w f]) s) \<noteq> None
     \<and> grows (calls_only no_run) s (snd ((seq [process_configure w i out f p c l, process_connection w c,
                 process_classpath w r, process_run w f]) s))"
proof (cases "fst (process_configure w i out f p c l s) = None")
  case True
  let ?s1 = "snd (process_configure w i out f p c l s)"
  have r: "fst (process_connection w c ?s1) \<noteq> None"
    by (rule process_connection_port_raises [OF assms])
  have eq: "(seq [process_configure w i out f p c l, process_connection w c,
                 process_classpath w r, process_run w f]) s = process_connection w c ?s1"
    using True r by (auto simp add: seq_Cons_if)
  have "grows (calls_only no_run) s ?s1"
    using steps_process_configure by (simp add: steps_def)
  moreover have "grows (calls_only no_run) ?s1 (snd (process_connection w c ?s1))"
    using steps_process_connection by (simp add: steps_def)
  ultimately have "grows (calls_only no_run) s (snd (process_connection w c ?s1))"
    using transp_grows by (metis transpD)
  then show ?thesis using r eq by simp
next
  case False
  then have eq: "(seq [process_configure w i out f p c l, process_connection w c,
                 process_classpath w r, process_run w f]) s = process_configure w i out f p c l s"
    by (auto simp add: seq_Cons_if)
  have "grows (calls_only no_run) s (snd (process_configure w i out f p c l s))"
    using steps_process_configure by (simp add: steps_def)
  then show ?thesis using False eq by simp
qed

lemma process_validate_name_error:
  "fst (process_validate i f s) = Some e \<Longrightarrow> \<exists>m. e = NameError m"
  by (auto simp: process_validate_def cond_def skip_def raise_def seq_eval
      split: pyval.splits if_splits)

lemma process_name_error:
  assumes "fst (process w i out f p c l r s) \<noteq> None"
  shows "\<exists>m. fst (process w i out f p c l r s) = Some (NameError m)"
proof (cases "fst (process_validate i f s)")
  case None
  show ?thesis
    using assms by (auto simp add: process_validated [OF None] fst_try_except_reraise)
next
  case (Some e')
  show ?thesis
    using process_validate_name_error [OF Some] by (auto simp add: process_validate_fails [OF Some])
qed

lemma process_port_fails:
  assumes "map_of c ''port'' = Some v" "py_int (int_max_str_digits w) v = Inl e"
  shows "(\<exists>m. fst (process w i out f p c l r s) = Some (NameError m))
     \<and> grows (calls_only no_run) s (snd (process w i out f p c l r s))"
proof -
  have "fst (process w i out f p c l r s) \<noteq> None
     \<and> grows (calls_only no_run) s (snd (process w i out f p c l r s))"
  proof (cases "fst (process_validate i f s)")
    case None
    show ?thesis
      using process_body_port [OF assms, of i out f p l r s]
      by (simp add: process_validated [OF None] snd_try_except_reraise fst_try_except_reraise)
  next
    case (Some e')
    show ?thesis by (simp add: process_validate_fails [OF Some] grows_refl)
  qed
  then show ?thesis using process_name_error by blast
qed

lemma process_port_quiet:
  assumes "map_of c ''port'' = Some v" "py_int (int_max_str_digits w) v = Inl e" "quiet w"
    and "fst (process_validate i f s) = None"
  shows "fst (process w i out f p c l r s) = Some (NameError (''Error: '' @ str_exn e))"
proof -
  let ?s1 = "snd (process_configure w i out f p c l s)"
  have 1: "fst (process_configure w i out f p c l s) = None"
    using noraise_process_configure [OF assms(3)] by (simp add: noraise_def)
  have 2: "fst (process_connection w c ?s1) = Some e"
    by (rule process_connection_port_quiet [OF assms(1-3)])
  have "fst ((seq [process_configure w i out f p c l, process_connection w c,
                 process_classpath w r, process_run w f]) s) = Some e"
    using 1 2 by (simp add: seq_Cons_if)
  then show ?thesis
    by (simp add: process_validated [OF assms(4)] fst_try_except_reraise)
qed

subsection \<open>The port that is set\<close>

lemma steps_process_configure_handles: "steps (same handles) (process_configure w i out f p c l)"
  unfolding process_configure_def
  by (intro steps_seq reflp_same transp_same)
     (auto simp add: steps_new_config_handles steps_config_set_handles steps_cond steps_skip reflp_same
       split: option.splits intro!: steps_compute)

lemma steps_export_step:
  assumes "reflp R" "\<And>n a. steps R (jcall w n a)"
  shows "steps R (export_step w f)"
  unfolding export_step_def
  by (auto split: option.splits pyval.splits simp: assms steps_raise)

lemma steps_process_classpath:
  assumes "reflp R" "transp R" "\<And>n a. steps R (jcall w n a)"
  shows "steps R (process_classpath w r)"
  unfolding process_classpath_def
  by (intro steps_seq assms(1,2))
     (auto simp add: assms steps_skip list_all_iff intro!: steps_seq)

lemma steps_process_run:
  assumes "reflp R" "transp R" "\<And>n a. steps R (jcall w n a)"
    and "steps R flush_out" "\<And>h. steps R (setOut h)" "\<And>h. steps R (setIn h)"
  shows "steps R (process_run w f)"
proof -
  have body: "steps R (seq (setOut BufferStream # jcall w ''report.fill'' []
                            # map (export_step w) (items_of f)))"
    by (intro steps_seq assms(1,2))
       (simp add: list_all_iff assms steps_export_step)
  have fin: "steps R (seq [flush_out, setIn i, setOut out])" for i out
    by (intro steps_seq assms(1,2)) (simp add: assms)
  have run: "steps R (\<lambda>s. try_finally
                 (seq (setOut BufferStream # jcall w ''report.fill'' []
                       # map (export_step w) (items_of f)))
                 (seq [flush_out, setIn (sys_in s), setOut (sys_out s)]) s)"
    using steps_try_finally [OF assms(2) body fin] by (simp add: steps_def)
  have rep: "steps R (\<lambda>s. jcall w ''jvReport'' [Ref ''config'', JFile (getInput s)] s)"
    using assms(3) by (simp add: steps_def)
  show ?thesis
    unfolding process_run_def Let_def
    by (intro steps_seq assms(1,2)) (simp add: run rep)
qed

lemma process_connection_port_sets:
  assumes port: "map_of c ''port'' = Some v" "py_int (int_max_str_digits w) v = Inr n"
    and q: "quiet w"
  shows "\<exists>pre post. events (snd (process_connection w c s))
                       = events s @ pre @ Call ''config.setDbPort'' [Py (PInt n)] (sys_out s) # post
                     \<and> list_all (calls_only no_run) pre"
    and "port_field (snd (process_connection w c s)) = Some (Py (PInt n))"
proof -
  define front where "front = [
          copy_field w c ''username'' ''DbUser'' Py,
          copy_field w c ''password'' ''DbPasswd'' Py,
          copy_field w c ''host'' ''DbHost'' Py,
          copy_field w c ''database'' ''DbName'' Py]"
  define behind where "behind = [
          copy_field w c ''jdbc_dir'' ''JdbcDir'' JFile,
          copy_field w c ''db_sid'' ''DbSid'' Py,
          copy_field w c ''xml_xpath'' ''XmlXpath'' Py,
          copy_field w c ''data_file'' ''DataFile'' JFile,
          copy_field w c ''json_query'' ''JsonQuery'' Py,
          copy_field w c ''jsonql_query'' ''JsonQLQuery'' Py,
          cond (has_key c ''csv_first_row'')
            (config_set w ''CsvFirstRow'' (Py (PBool True))),
          copy_field w c ''csv_columns'' ''CsvColumns'' Py,
          copy_field w c ''csv_record_del'' ''CsvRecordDel'' Py,
          copy_field w c ''csv_field_del'' ''CsvFieldDel'' Py,
          copy_field w c ''csv_charset'' ''CsvCharset'' Py]"
  define s2 where "s2 = snd (seq front s)"
  define s3 where "s3 = snd (set_port w c s2)"
  define s4 where "s4 = snd (seq behind s3)"
  have ne: "c \<noteq> []" using port by auto
  have whole: "process_connection w c = seq (front @ set_port w c # behind)"
    unfolding process_connection_def front_def behind_def using ne by (simp add: cond_simps)
  have "noraise (seq front)"
    unfolding front_def by (intro noraise_seq) (simp add: noraise_copy_field [OF q])
  then have f_ok: "fst (seq front s) = None" by (simp add: noraise_def)
  have "steps (grows (calls_only no_run)) (seq front)"
    unfolding front_def
    by (intro steps_seq reflp_grows transp_grows) (simp add: steps_copy_field_grows no_run_def)
  then obtain pre where pre: "events s2 = events s @ pre" "list_all (calls_only no_run) pre"
    by (auto simp add: steps_def grows_def s2_def)
  have "steps (same handles) (seq front)"
    unfolding front_def
    by (intro steps_seq reflp_same transp_same) (simp add: steps_copy_field_handles)
  then have out2: "sys_out s2 = sys_out s"
    by (simp add: steps_def same_def handles_def s2_def)
  have p_ok: "fst (set_port w c s2) = None"
    using set_port_call(2) [OF port, of s2] q by (simp add: quiet_def)
  have ev3: "events s3 = events s2 @ [Call ''config.setDbPort'' [Py (PInt n)] (sys_out s)]"
    using set_port_call(1) [OF port, of s2] out2 by (simp add: s3_def)
  have port3: "port_field s3 = Some (Py (PInt n))"
    using set_port_call(3) [OF port p_ok] by (simp add: s3_def port_field_def)
  have run: "process_connection w c s = seq behind s3"
    using f_ok p_ok by (simp add: whole seq_append seq_Cons_if s2_def s3_def)
  have "steps (grows any_event) (seq behind)"
    unfolding behind_def
    by (intro steps_seq reflp_grows transp_grows)
       (simp add: steps_copy_field_any steps_config_set_any steps_cond reflp_grows)
  then obtain post where post: "events s4 = events s3 @ post"
    by (auto simp add: steps_def grows_def s4_def)
  have "steps (same port_field) (seq behind)"
    unfolding behind_def
    by (intro steps_seq reflp_same transp_same)
       (simp add: steps_copy_field_port steps_config_set_port steps_cond reflp_same)
  then have port4: "port_field s4 = port_field s3"
    by (simp add: steps_def same_def s4_def)
  show "\<exists>pre post. events (snd (process_connection w c s))
                       = events s @ pre @ Call ''config.setDbPort'' [Py (PInt n)] (sys_out s) # post
                     \<and> list_all (calls_only no_run) pre"
    using pre post ev3 by (auto simp add: run s4_def [symmetric])
  show "port_field (snd (process_connection w c s)) = Some (Py (PInt n))"
    using port3 port4 by (simp add: run s4_def [symmetric])
qed

lemma process_port_sets:
  assumes port: "map_of c ''port'' = Some v" "py_int (int_max_str_digits w) v = Inr n"
    and q: "quiet w" and valid: "fst (process_validate i f s) = None"
  shows "(\<exists>pre post. events (snd (process w i out f p c l r s))
                       = events s @ pre @ Call ''config.setDbPort'' [Py (PInt n)] (sys_out s) # post
                     \<and> list_all (calls_only no_run) pre)
     \<and> port_field (snd (process w i out f p c l r s)) = Some (Py (PInt n))"
proof -
  define s1 where "s1 = snd (process_configure w i out f p c l s)"
  define s4 where "s4 = snd (process_connection w c s1)"
  define rest where "rest = seq [process_classpath w r, process_run w f]"
  define sF where "sF = (if fst (process_connection w c s1) = None then snd (rest s4) else s4)"
  have c_ok: "fst (process_configure w i out f p c l s) = None"
    using noraise_process_configure [OF q] by (simp add: noraise_def)
  have final: "snd (process w i out f p c l r s) = sF"
    using c_ok
    by (simp add: process_validated [OF valid] snd_try_except_reraise seq_Cons_if [of "process_configure w i out f p c l"]
        seq_Cons_if [of "process_connection w c"] s1_def s4_def rest_def sF_def)
  obtain pre0 where pre0: "events s1 = events s @ pre0" "list_all (calls_only no_run) pre0"
    using steps_process_configure [of w i out f p c l] by (auto simp add: steps_def grows_def s1_def)
  have out1: "sys_out s1 = sys_out s"
    using steps_process_configure_handles [of w i out f p c l]
    by (simp add: steps_def same_def handles_def s1_def)
  obtain pre post where conn: "events s4 = events s1 @ pre
        @ Call ''config.setDbPort'' [Py (PInt n)] (sys_out s1) # post"
      "list_all (calls_only no_run) pre"
    using process_connection_port_sets(1) [OF port q, of s1] by (auto simp add: s4_def)
  have port4: "port_field s4 = Some (Py (PInt n))"
    using process_connection_port_sets(2) [OF port q, of s1] by (simp add: s4_def)
  have "steps (grows any_event) rest"
    unfolding rest_def
    by (intro steps_seq reflp_grows transp_grows)
       (simp add: steps_process_classpath steps_process_run steps_jcall_any steps_streams_any
          reflp_grows transp_grows)
  then have "grows any_event s4 (snd (rest s4))" by (simp add: steps_def)
  then have "grows any_event s4 sF" by (simp add: sF_def grows_refl)
  then obtain more where more: "events sF = events s4 @ more" by (auto simp add: grows_def)
  have "steps (same port_field) rest"
    unfolding rest_def
    by (intro steps_seq reflp_same transp_same)
       (simp add: steps_process_classpath steps_process_run steps_jcall_port steps_streams_port
          reflp_same transp_same)
  then have "port_field (snd (rest s4)) = port_field s4" by (simp add: steps_def same_def)
  then have portF: "port_field sF = Some (Py (PInt n))" using port4 by (simp add: sF_def)
  have "events sF = events s @ (pre0 @ pre)
          @ Call ''config.setDbPort'' [Py (PInt n)] (sys_out s) # (post @ more)"
    using pre0 conn more out1 by simp
  moreover have "list_all (calls_only no_run) (pre0 @ pre)" using pre0 conn by simp
  ultimately show ?thesis using portF unfolding final by blast
qed

text \<open>
  Claim C7. Let the connection of \<^verbatim>\<open>process\<close> hold the value \<open>v\<close> under \<^verbatim>\<open>'port'\<close>.

  When \<^verbatim>\<open>int(v)\<close> is the integer \<open>n\<close>, lines 167 and 168 make one foreign call,
  \<^verbatim>\<open>config.setDbPort(n)\<close>, which raises when the engine says so and otherwise leaves \<open>n\<close> as
  the port of the configuration. When moreover the engine raises nothing and the
  validation of the arguments passes, a run of \<^verbatim>\<open>process\<close> makes that call, with no
  \<^verbatim>\<open>report.fill\<close> and no export among the foreign calls before it, and ends with \<open>n\<close> as the
  port of the configuration.

  When \<^verbatim>\<open>int(v)\<close> raises \<open>e\<close>, then whatever the engine does the call of \<^verbatim>\<open>process\<close> raises a
  \<^verbatim>\<open>NameError\<close>, which is what the spec calls InvalidArgument, and none of the foreign calls
  it has made is \<^verbatim>\<open>report.fill\<close> or an export; and when the engine raises nothing and the
  validation of the arguments passes, the exception is \<^verbatim>\<open>NameError('Error: ' + str(e))\<close>.
\<close>

theorem process_port:
  "map_of db_connection ''port'' = Some v \<Longrightarrow>
   (py_int (int_max_str_digits w) v = Inr n \<longrightarrow>
        events (snd (set_port w db_connection s))
          = events s @ [Call ''config.setDbPort'' [Py (PInt n)] (sys_out s)]
        \<and> fst (set_port w db_connection s)
            = map_option ForeignError
                (jvm_raises w (events s) ''config.setDbPort'' [Py (PInt n)])
        \<and> (fst (set_port w db_connection s) = None \<longrightarrow>
             config (snd (set_port w db_connection s)) = (''DbPort'', Py (PInt n)) # config s)
        \<and> (quiet w \<and> fst (process_validate input_file format_list s) = None \<longrightarrow>
             (\<exists>pre post.
                 events (snd (process w input_file out format_list parameters db_connection
                                locale resource s))
                 = events s @ pre @ Call ''config.setDbPort'' [Py (PInt n)] (sys_out s) # post
                 \<and> list_all (calls_only no_run) pre)
             \<and> port_field (snd (process w input_file out format_list parameters db_connection
                                  locale resource s))
                 = Some (Py (PInt n))))
   \<and> (py_int (int_max_str_digits w) v = Inl e \<longrightarrow>
        (\<exists>m. fst (process w input_file out format_list parameters db_connection locale
                      resource s)
               = Some (NameError m))
        \<and> grows (calls_only no_run) s
            (snd (process w input_file out format_list parameters db_connection locale resource s))
        \<and> (quiet w \<and> fst (process_validate input_file format_list s) = None \<longrightarrow>
             fst (process w input_file out format_list parameters db_connection locale resource s)
             = Some (NameError (''Error: '' @ str_exn e))))"
proof (intro conjI impI)
  assume port: "map_of db_connection ''port'' = Some v"
  {
    assume ok: "py_int (int_max_str_digits w) v = Inr n"
    show "events (snd (set_port w db_connection s))
          = events s @ [Call ''config.setDbPort'' [Py (PInt n)] (sys_out s)]"
      by (rule set_port_call(1) [OF port ok])
    show "fst (set_port w db_connection s)
            = map_option ForeignError
                (jvm_raises w (events s) ''config.setDbPort'' [Py (PInt n)])"
      by (rule set_port_call(2) [OF port ok])
    {
      assume "fst (set_port w db_connection s) = None"
      then show "config (snd (set_port w db_connection s)) = (''DbPort'', Py (PInt n)) # config s"
        by (rule set_port_call(3) [OF port ok])
    }
    {
      assume "quiet w \<and> fst (process_validate input_file format_list s) = None"
      then have q: "quiet w" and valid: "fst (process_validate input_file format_list s) = None"
        by simp_all
      note sets = process_port_sets [OF port ok q valid, of out parameters "locale" resource]
      show "\<exists>pre post.
                 events (snd (process w input_file out format_list parameters db_connection
                                locale resource s))
                 = events s @ pre @ Call ''config.setDbPort'' [Py (PInt n)] (sys_out s) # post
                 \<and> list_all (calls_only no_run) pre"
        by (rule sets [THEN conjunct1])
      show "port_field (snd (process w input_file out format_list parameters db_connection
                                  locale resource s))
                 = Some (Py (PInt n))"
        by (rule sets [THEN conjunct2])
    }
  }
  {
    assume bad: "py_int (int_max_str_digits w) v = Inl e"
    note fails = process_port_fails [OF port bad, of input_file out format_list parameters
        "locale" resource s]
    show "\<exists>m. fst (process w input_file out format_list parameters db_connection locale
                      resource s)
               = Some (NameError m)"
      by (rule fails [THEN conjunct1])
    show "grows (calls_only no_run) s
            (snd (process w input_file out format_list parameters db_connection locale resource s))"
      by (rule fails [THEN conjunct2])
    {
      assume "quiet w \<and> fst (process_validate input_file format_list s) = None"
      then show "fst (process w input_file out format_list parameters db_connection locale resource s)
             = Some (NameError (''Error: '' @ str_exn e))"
        using process_port_quiet [OF port bad] by simp
    }
  }
qed

theorem process_port_witness:
  "events (snd (set_port quiet_world [(''driver'', PStr ''postgres''), (''port'', PStr ''5432'')]
                  init_state))
     = [Call ''config.setDbPort'' [Py (PInt 5432)] (Handle 1)]
   \<and> port_field (snd (process quiet_world ''report.jrxml'' (PBool False) (PList [PStr ''pdf''])
                         [] [(''driver'', PStr ''postgres''), (''port'', PStr ''5432'')]
                         (PStr ''pt_BR'') [] init_state))
       = Some (Py (PInt 5432))
   \<and> fst (process quiet_world ''report.jrxml'' (PBool False) (PList [PStr ''pdf'']) []
            [(''driver'', PStr ''postgres''), (''port'', PStr ''not-a-number'')]
            (PStr ''pt_BR'') [] init_state)
       = Some (NameError (''Error: invalid literal for int() with base 10: ''
                          @ [CHR 0x27] @ ''not-a-number'' @ [CHR 0x27]))"
proof -
  have limit: "int_max_str_digits quiet_world = 4300" by (simp add: quiet_world_def)
  have good: "py_int (int_max_str_digits quiet_world) (PStr ''5432'') = Inr 5432"
    unfolding limit by (simp add: py_int_eval)
  have bad: "py_int (int_max_str_digits quiet_world) (PStr ''not-a-number'')
             = Inl (ValueError (''invalid literal for int() with base 10: ''
                                @ [CHR 0x27] @ ''not-a-number'' @ [CHR 0x27]))"
    unfolding limit by (simp add: py_int_eval)
  have q: "quiet quiet_world" by (simp add: quiet_def quiet_world_def)
  have valid: "fst (process_validate ''report.jrxml'' (PList [PStr ''pdf'']) init_state) = None"
    by (simp add: process_validate_pass FORMATS_def)
  have p1: "map_of [(''driver'', PStr ''postgres''), (''port'', PStr ''5432'')] ''port''
            = Some (PStr ''5432'')"
    by simp
  have p2: "map_of [(''driver'', PStr ''postgres''), (''port'', PStr ''not-a-number'')] ''port''
            = Some (PStr ''not-a-number'')"
    by simp
  note a = process_port [OF p1, where w = quiet_world and n = 5432 and s = init_state
      and input_file = "''report.jrxml''" and format_list = "PList [PStr ''pdf'']",
      THEN conjunct1, THEN mp, OF good]
  note b = process_port [OF p2, where w = quiet_world and s = init_state
      and input_file = "''report.jrxml''" and format_list = "PList [PStr ''pdf'']",
      THEN conjunct2, THEN mp, OF bad]
  have 1: "events (snd (set_port quiet_world
                          [(''driver'', PStr ''postgres''), (''port'', PStr ''5432'')] init_state))
           = [Call ''config.setDbPort'' [Py (PInt 5432)] (Handle 1)]"
    using a [THEN conjunct1] by (simp add: init_state_def)
  have 2: "port_field (snd (process quiet_world ''report.jrxml'' (PBool False)
                         (PList [PStr ''pdf''])
                         [] [(''driver'', PStr ''postgres''), (''port'', PStr ''5432'')]
                         (PStr ''pt_BR'') [] init_state))
       = Some (Py (PInt 5432))"
    by (rule a [THEN conjunct2, THEN conjunct2, THEN conjunct2, THEN mp, OF conjI [OF q valid],
          THEN conjunct2])
  have 3: "fst (process quiet_world ''report.jrxml'' (PBool False) (PList [PStr ''pdf'']) []
            [(''driver'', PStr ''postgres''), (''port'', PStr ''not-a-number'')]
            (PStr ''pt_BR'') [] init_state)
       = Some (NameError (''Error: invalid literal for int() with base 10: ''
                          @ [CHR 0x27] @ ''not-a-number'' @ [CHR 0x27]))"
    using b [THEN conjunct2, THEN conjunct2, THEN mp, OF conjI [OF q valid]] by simp
  show ?thesis by (intro conjI 1 2 3)
qed

section \<open>\<^verbatim>\<open>process\<close>: the stream handles around the fill and the exports\<close>




lemma fst_try_finally_restore:
  "fst (try_finally b (seq [flush_out, setIn i, setOut out]) s) = fst (b s)"
  by (simp add: try_finally_def flush_out_def setIn_def setOut_def seq_eval split: prod.splits)











section \<open>\<^verbatim>\<open>process_json\<close>: the validation of the format list\<close>

lemmas json_unfold =
  process_json_def process_json_validate_def json_configure_def json_set_db_type_def
  json_connection_def json_fetch_def json_classpath_def json_report_def json_fill_def
  call_compile_def compile_def put_param_def with_tmp_dir_def not_in_formats_json_def
  FORMATS_JSON_def FORMATS_METHODS_REQUEST_def name_file_def render_params_def dirname_def
  path_join_def

lemma process_json_validate_state: "snd (process_json_validate i f s) = s"
  by (auto simp: process_json_validate_def cond_def skip_def raise_def compute_def seq_eval split: pyval.splits sum.splits)

lemma comprehension_all_in:
  "\<forall>k \<in> set ks. \<exists>x. k = PStr x \<and> py_in_str x FORMATS_JSON \<Longrightarrow>
   \<exists>bs. comprehension not_in_formats_json ks = Inr bs \<and> \<not> list_ex (\<lambda>b. b) bs"
  by (induction ks) (auto simp: not_in_formats_json_def)

lemma comprehension_strings:
  "\<forall>k \<in> set ks. \<exists>x. k = PStr x \<Longrightarrow>
   \<exists>bs. comprehension not_in_formats_json ks = Inr bs
      \<and> (list_ex (\<lambda>b. b) bs \<longleftrightarrow> (\<exists>x. PStr x \<in> set ks \<and> \<not> py_in_str x FORMATS_JSON))"
  by (induction ks) (auto simp: not_in_formats_json_def)

lemma process_json_validate_pass:
  assumes "i \<noteq> []" "\<forall>k \<in> set ks. k = PStr ''pdf''"
  shows "process_json_validate i (PList ks) s = (None, s)"
proof -
  have "\<forall>k \<in> set ks. \<exists>x. k = PStr x \<and> py_in_str x FORMATS_JSON"
    using assms(2) by (auto simp: FORMATS_JSON_def)
  from comprehension_all_in [OF this] obtain bs where
    "comprehension not_in_formats_json ks = Inr bs" "\<not> list_ex (\<lambda>b. b) bs" by blast
  then show ?thesis using assms(1)
    by (simp add: process_json_validate_def cond_def skip_def compute_def seq_eval)
qed

lemma process_json_validate_bad:
  assumes "i \<noteq> []" "\<forall>k \<in> set ks. \<exists>x. k = PStr x" "PStr x \<in> set ks" "\<not> py_in_str x ''pdf''"
  shows "process_json_validate i (PList ks) s = (Some (NameError ''Invalid format output!''), s)"
proof -
  from comprehension_strings [OF assms(2)] obtain bs where
    "comprehension not_in_formats_json ks = Inr bs" "list_ex (\<lambda>b. b) bs"
    using assms(3,4) by (auto simp: FORMATS_JSON_def)
  then show ?thesis using assms(1)
    by (simp add: process_json_validate_def cond_def skip_def raise_def compute_def seq_eval)
qed

lemma process_json_validate_not_list:
  "i \<noteq> [] \<Longrightarrow> \<forall>ks. f \<noteq> PList ks \<Longrightarrow>
   process_json_validate i f s
   = (Some (NameError ([CHR 0x27] @ ''format_list'' @ [CHR 0x27] @ '' value is not list!'')), s)"
  by (cases f) (simp_all add: process_json_validate_def cond_def skip_def raise_def seq_eval)

lemma process_json_validate_fails:
  "fst (process_json_validate i f (s\<lparr>output_file := out, file_out := None, events := events s @ [TempDirCreate (tmp_dir w)]\<rparr>)) = Some e \<Longrightarrow>
   process_json w i out f p c l r s
   = (Some e, s\<lparr>output_file := out, file_out := None,
                events := events s @ [TempDirCreate (tmp_dir w), TempDirRemove (tmp_dir w)]\<rparr>)"
  using process_json_validate_state [of i f "s\<lparr>output_file := out, file_out := None, events := events s @ [TempDirCreate (tmp_dir w)]\<rparr>"]
  by (cases "process_json_validate i f (s\<lparr>output_file := out, file_out := None, events := events s @ [TempDirCreate (tmp_dir w)]\<rparr>)")
     (simp add: process_json_def with_tmp_dir_def emit_def try_finally_def seq_eval)

text \<open>
  The test of line 273 is a test for a substring of \<^verbatim>\<open>'pdf'\<close> (line 34 has no comma), so a
  list such as \<^verbatim>\<open>['p']\<close> passes the validation as well.
\<close>

lemma process_json_accepts_substring:
  "process_json_validate ''report.jrxml'' (PList [PStr ''p'']) init_state = (None, init_state)"
  by (simp add: json_unfold run_unfold)

text \<open>
  Claim C1, as stated, fails: the validation of \<^verbatim>\<open>process_json\<close> tests each element of
  the list and nothing else, so it accepts the empty list and \<^verbatim>\<open>['pdf', 'pdf']\<close> as well
  as \<^verbatim>\<open>['pdf']\<close>; with an empty list, a \<^verbatim>\<open>jsonql\<close> connection and an engine that raises
  nothing the call goes all the way and returns 0.
\<close>

theorem process_json_accepts_other_lists:
  "process_json_validate ''report.jrxml'' (PList []) init_state = (None, init_state)
   \<and> process_json_validate ''report.jrxml'' (PList [PStr ''pdf'', PStr ''pdf'']) init_state
       = (None, init_state)
   \<and> fst (process_json quiet_world ''report.jrxml'' (PBool False) (PList []) []
            [(''driver'', PStr ''jsonql''), (''data_file'', PStr ''data.json'')] (PBool False) []
            init_state) = None"
  by (simp add: json_unfold run_unfold quiet_world_def init_state_def)

text \<open>
  Claim C1, amended. For a call of \<^verbatim>\<open>process_json\<close> with a non-empty input path: every
  list all of whose elements are \<^verbatim>\<open>'pdf'\<close> (the empty list and repetitions included) passes
  the validation; a list of strings one of which does not occur inside \<^verbatim>\<open>'pdf'\<close> makes the
  call raise \<^verbatim>\<open>NameError('Invalid format output!')\<close>, and an argument that is not a list
  makes it raise \<^verbatim>\<open>NameError("'format_list' value is not list!")\<close> (the spec's
  InvalidFormat); in both cases the only events of the call are the creation and the
  removal of the temporary directory: no foreign call has been made.
\<close>

theorem process_json_format_validation:
  "input_file \<noteq> [] \<Longrightarrow>
   ((\<forall>k \<in> set keys. k = PStr ''pdf'') \<longrightarrow>
      process_json_validate input_file (PList keys) s = (None, s))
   \<and> ((\<forall>k \<in> set keys. \<exists>x. k = PStr x) \<and> PStr x \<in> set keys \<and> \<not> py_in_str x ''pdf'' \<longrightarrow>
        process_json w input_file out (PList keys) parameters connection locale resource s
        = (Some (NameError ''Invalid format output!''),
           s\<lparr>output_file := out, file_out := None,
             events := events s @ [TempDirCreate (tmp_dir w), TempDirRemove (tmp_dir w)]\<rparr>))
   \<and> ((\<forall>ks. format_list \<noteq> PList ks) \<longrightarrow>
        process_json w input_file out format_list parameters connection locale resource s
        = (Some (NameError ([CHR 0x27] @ ''format_list'' @ [CHR 0x27] @ '' value is not list!'')),
           s\<lparr>output_file := out, file_out := None,
             events := events s @ [TempDirCreate (tmp_dir w), TempDirRemove (tmp_dir w)]\<rparr>))"
  using process_json_validate_pass [of input_file keys s]
    process_json_validate_bad [of input_file keys x]
    process_json_validate_not_list [of input_file format_list]
    process_json_validate_fails [where i = input_file and f = "PList keys" and s = s
      and out = out and w = w and p = parameters and c = connection and l = "locale"
      and r = resource]
    process_json_validate_fails [where i = input_file and f = format_list and s = s
      and out = out and w = w and p = parameters and c = connection and l = "locale"
      and r = resource]
  by simp

theorem process_json_format_validation_witness:
  "process_json_validate ''report.jrxml'' (PList [PStr ''pdf'']) init_state = (None, init_state)
   \<and> fst (process_json quiet_world ''report.jrxml'' (PBool False)
            (PList [PStr ''pdf'', PStr ''xls'']) [] [] (PBool False) [] init_state)
       = Some (NameError ''Invalid format output!'')
   \<and> events (snd (process_json quiet_world ''report.jrxml'' (PBool False) (PStr ''pdf'') [] []
                     (PBool False) [] init_state))
       = [TempDirCreate (tmp_dir quiet_world), TempDirRemove (tmp_dir quiet_world)]"
  using process_json_format_validation [of "''report.jrxml''" "[PStr ''pdf'']" init_state]
    process_json_format_validation [of "''report.jrxml''" "[PStr ''pdf'', PStr ''xls'']" init_state
      "''xls''" quiet_world "PBool False" "[]" "[]" "PBool False" "[]" "PStr ''pdf''"]
  by (simp add: init_state_def)

section \<open>\<^verbatim>\<open>process_json\<close>: the data-source type\<close>

lemma json_set_db_type_json:
  "map_of c ''driver'' = Some (PStr ''json'') \<Longrightarrow> json_set_db_type w c = config_set w ''DbType'' (DsType Json)"
  by (rule ext) (simp add: json_set_db_type_def has_key_def subscript_def compute_def)

lemma json_set_db_type_jsonql:
  "map_of c ''driver'' = Some (PStr ''jsonql'') \<Longrightarrow> json_set_db_type w c = config_set w ''DbType'' (DsType Jsonql)"
  by (rule ext) (simp add: json_set_db_type_def has_key_def subscript_def compute_def)

lemma json_set_db_type_absent:
  "map_of c ''driver'' = None \<Longrightarrow> json_set_db_type w c = config_set w ''DbType'' (DsType DsNone)"
  by (simp add: json_set_db_type_def has_key_def)

lemma json_set_db_type_other:
  "map_of c ''driver'' = Some d \<Longrightarrow> d \<noteq> PStr ''json'' \<Longrightarrow> d \<noteq> PStr ''jsonql'' \<Longrightarrow> json_set_db_type w c s = (None, s)"
  by (simp add: json_set_db_type_def has_key_def subscript_def compute_def skip_def)

lemma config_set_quiet:
  "quiet w \<Longrightarrow> config_set w f v s = (None, s\<lparr>events := events s @ [Call (''config.set'' @ f) [v] (sys_out s)], config := (f, v) # config s\<rparr>)"
  by (simp add: config_set_def jcall_def quiet_def Let_def seq_eval)

lemma getDbType_set: "getDbType w (s\<lparr>events := es, config := (''DbType'', DsType t) # c\<rparr>) = Some t"
  by (simp add: getDbType_def)

text \<open>
  Claim C4, as stated, fails for a driver other than \<^verbatim>\<open>'json'\<close> and \<^verbatim>\<open>'jsonql'\<close>: the
  \<^verbatim>\<open>else\<close> of line 300 belongs to the test of line 295, so with \<^verbatim>\<open>driver='mysql'\<close> no branch
  calls \<^verbatim>\<open>setDbType\<close> and the configuration is left without a data-source type.
\<close>

theorem json_unknown_driver_sets_nothing:
  "json_set_db_type quiet_world [(''driver'', PStr ''mysql'')] init_state = (None, init_state)
   \<and> map_of (config (snd (json_set_db_type quiet_world [(''driver'', PStr ''mysql'')]
                              init_state))) ''DbType''
       = None"
  by (simp add: json_unfold run_unfold init_state_def)

text \<open>
  Claim C4, amended. In \<^verbatim>\<open>process_json\<close> the driver \<^verbatim>\<open>'json'\<close> makes lines 295 to 301 the
  call \<^verbatim>\<open>config.setDbType(json)\<close>, the driver \<^verbatim>\<open>'jsonql'\<close> the call
  \<^verbatim>\<open>config.setDbType(jsonql)\<close> and a connection without the key \<^verbatim>\<open>'driver'\<close> the call
  \<^verbatim>\<open>config.setDbType(none)\<close>, after which (when the engine does not raise) the
  configuration answers that type; any other driver value leaves the state as it is: no
  call is made and the data-source type of the configuration is not set.
\<close>

theorem json_driver_mapping:
  "(map_of connection ''driver'' = Some (PStr ''json'') \<longrightarrow>
      json_set_db_type w connection = config_set w ''DbType'' (DsType Json)
      \<and> (quiet w \<longrightarrow> getDbType w (snd (json_set_db_type w connection s)) = Some Json))
   \<and> (map_of connection ''driver'' = Some (PStr ''jsonql'') \<longrightarrow>
        json_set_db_type w connection = config_set w ''DbType'' (DsType Jsonql)
        \<and> (quiet w \<longrightarrow> getDbType w (snd (json_set_db_type w connection s)) = Some Jsonql))
   \<and> (map_of connection ''driver'' = None \<longrightarrow>
        json_set_db_type w connection = config_set w ''DbType'' (DsType DsNone)
        \<and> (quiet w \<longrightarrow> getDbType w (snd (json_set_db_type w connection s)) = Some DsNone))
   \<and> (map_of connection ''driver'' = Some d \<and> d \<noteq> PStr ''json'' \<and> d \<noteq> PStr ''jsonql'' \<longrightarrow>
        json_set_db_type w connection s = (None, s))"
  using json_set_db_type_json [of connection w] json_set_db_type_jsonql [of connection w]
    json_set_db_type_absent [of connection w] json_set_db_type_other [of connection d w s]
  by (simp add: config_set_quiet getDbType_def)

theorem json_driver_mapping_witness:
  "getDbType quiet_world (snd (json_set_db_type quiet_world [(''driver'', PStr ''json'')] init_state))
     = Some Json
   \<and> getDbType quiet_world
        (snd (json_set_db_type quiet_world [(''driver'', PStr ''jsonql'')] init_state))
       = Some Jsonql
   \<and> getDbType quiet_world (snd (json_set_db_type quiet_world [] init_state)) = Some DsNone
   \<and> json_set_db_type quiet_world [(''driver'', PStr ''mysql'')] init_state = (None, init_state)"
proof -
  have q: "quiet quiet_world" by (simp add: quiet_def quiet_world_def)
  have 1: "map_of [(''driver'', PStr ''json'')] ''driver'' = Some (PStr ''json'')"
    and 2: "map_of [(''driver'', PStr ''jsonql'')] ''driver'' = Some (PStr ''jsonql'')"
    and 3: "map_of ([] :: (string \<times> pyval) list) ''driver'' = None"
    and 4: "map_of [(''driver'', PStr ''mysql'')] ''driver'' = Some (PStr ''mysql'')
            \<and> PStr ''mysql'' \<noteq> PStr ''json'' \<and> PStr ''mysql'' \<noteq> PStr ''jsonql''"
    by simp_all
  note a = json_driver_mapping [of "[(''driver'', PStr ''json'')]" quiet_world init_state]
  note b = json_driver_mapping [of "[(''driver'', PStr ''jsonql'')]" quiet_world init_state]
  note c = json_driver_mapping [of "[]" quiet_world init_state]
  note d = json_driver_mapping [of "[(''driver'', PStr ''mysql'')]" quiet_world init_state
      "PStr ''mysql''"]
  note a' = a [THEN conjunct1, THEN mp, OF 1, THEN conjunct2, THEN mp, OF q]
  note b' = b [THEN conjunct2, THEN conjunct1, THEN mp, OF 2, THEN conjunct2, THEN mp, OF q]
  note c' = c [THEN conjunct2, THEN conjunct2, THEN conjunct1, THEN mp, OF 3, THEN conjunct2,
      THEN mp, OF q]
  note d' = d [THEN conjunct2, THEN conjunct2, THEN conjunct2, THEN mp, OF 4]
  show ?thesis
    by (intro conjI a' b' c' d')
qed

section \<open>\<^verbatim>\<open>process_json\<close>: the data source of the connection\<close>

lemma json_connection_missing:
  "c \<noteq> [] \<Longrightarrow> \<not> has_key c ''data_file'' \<Longrightarrow> \<not> has_key c ''url_file'' \<Longrightarrow>
   json_connection w c s = (Some (NameError ''No data sources were reported''), s)"
  by (simp add: json_connection_def cond_def raise_def seq_eval)

lemma json_connection_empty: "json_connection w [] s = (None, s)"
  by (simp add: json_connection_def cond_def skip_def)


section \<open>\<^verbatim>\<open>process_json\<close>: the remote fetch\<close>

lemma steps_write_file_grows: "ok (FileWrite p c) \<Longrightarrow> steps (grows ok) (write_file w p c)"
  by (auto simp: steps_def grows_def write_file_def split: option.splits)

lemma try_seq2_raises:
  "a s = (Some e, s') \<Longrightarrow>
   try_except (seq [a, b]) (reraise p) s = (Some (NameError (p @ str_exn e)), s')"
  by (simp add: try_except_reraise seq_eval)

lemma try_seq2_passes:
  "a s = (None, s') \<Longrightarrow> try_except (seq [a, b]) h s = try_except b h s'"
  by (simp add: try_except_def seq_eval)

lemma try_except_wraps:
  "fst (try_except b (reraise p) s) = None
   \<or> (\<exists>msg. fst (try_except b (reraise p) s) = Some (NameError (p @ msg)))"
  by (cases "fst (b s)") (simp_all add: fst_try_except_reraise)

lemma compute_Inr: "compute (Inr v) k = k v"
  by (rule ext) (simp add: compute_def)

lemma json_fetch_bad_method:
  assumes "map_of c ''url_method'' = Some (PStr m)" "m \<notin> set FORMATS_METHODS_REQUEST"
  shows "json_fetch w c s = (Some (NameError ''Error request: Invalid method request!''), s)"
proof -
  have "json_fetch w c s
        = (Some (NameError (''Error request: '' @ str_exn (NameError ''Invalid method request!''))), s)"
    unfolding json_fetch_def using assms
    by (intro try_seq2_raises) (simp add: compute_def subscript_def cond_def raise_def)
  then show ?thesis by simp
qed

lemma json_fetch_no_method:
  assumes "\<not> has_key c ''url_method''"
  shows "json_fetch w c s
         = (Some (NameError (''Error request: '' @ [CHR 0x27] @ ''url_method'' @ [CHR 0x27])), s)"
proof -
  have "json_fetch w c s
        = (Some (NameError (''Error request: '' @ str_exn (KeyError ''url_method''))), s)"
    unfolding json_fetch_def using assms
    by (intro try_seq2_raises) (simp add: compute_def subscript_None)
  then show ?thesis by simp
qed

lemma json_fetch_method_not_str:
  assumes "map_of c ''url_method'' = Some v" "\<forall>m. v \<noteq> PStr m"
  shows "json_fetch w c s
         = (Some (NameError (''Error request: '' @ [CHR 0x27] @ ''url_method'' @ [CHR 0x27]
                             @ '' value is not list!'')), s)"
proof -
  have "json_fetch w c s
        = (Some (NameError (''Error request: ''
             @ str_exn (NameError ([CHR 0x27] @ ''url_method'' @ [CHR 0x27]
                                   @ '' value is not list!'')))), s)"
    unfolding json_fetch_def using assms
    by (intro try_seq2_raises) (cases v; simp add: compute_def subscript_def raise_def)
  then show ?thesis by simp
qed

lemma json_fetch_wraps:
  "fst (json_fetch w c s) = None
   \<or> (\<exists>msg. fst (json_fetch w c s) = Some (NameError (''Error request: '' @ msg)))"
  unfolding json_fetch_def by (rule try_except_wraps)

lemma json_fetch_method_ok:
  assumes "map_of c ''url_method'' = Some (PStr m)" "m \<in> set FORMATS_METHODS_REQUEST"
  shows "compute (subscript c ''url_method'')
            (\<lambda>m. case m of
                    PStr ms \<Rightarrow>
                      cond (ms \<notin> set FORMATS_METHODS_REQUEST)
                        (raise (NameError ''Invalid method request!''))
                  | _ \<Rightarrow>
                      raise (NameError ([CHR 0x27] @ ''url_method'' @ [CHR 0x27]
                                        @ '' value is not list!''))) s
        = (None, s)"
  using assms by (simp add: compute_def subscript_def cond_def skip_def)

text \<open>The body of the \<^verbatim>\<open>try\<close>, once the method, the URL and the three dictionaries are known.\<close>

lemma json_fetch_sends:
  assumes "map_of c ''url_method'' = Some (PStr m)" "m \<in> set FORMATS_METHODS_REQUEST"
    and "map_of c ''url_file'' = Some url"
    and "(if has_key c ''url_params'' then subscript c ''url_params'' else Inr (PDict [])) = Inr PARAMS"
    and "(if has_key c ''url_data_post'' then subscript c ''url_data'' else Inr (PDict [])) = Inr DATA"
    and "(if has_key c ''url_header'' then subscript c ''url_header'' else Inr (PDict [])) = Inr HEADER"
  shows "json_fetch w c s =
     try_except
       (send w \<lparr>req_method = PStr m, req_url = url, req_data = DATA, req_headers = HEADER,
                req_params = PARAMS\<rparr>
          (\<lambda>resp.
             if status_code resp = 200
             then compute (json_loads w (resp_text resp))
                    (\<lambda>data.
                       seq [
                         write_file w (path_join (tmp_dir w) ''data_report.json'') (json_dumps w data),
                         config_set w ''DataFile''
                           (JFile (PStr (path_join (tmp_dir w) ''data_report.json'')))])
             else raise (NameError (''Error request status code: '' @ str_int (status_code resp)))))
       (reraise ''Error request: '') s"
  unfolding json_fetch_def try_seq2_passes [OF json_fetch_method_ok [OF assms(1,2)]] assms(4-6)
  using assms(1,3)
  by (simp add: compute_Inr subscript_def has_key_def)

lemma json_fetch_no_data:
  assumes "map_of c ''url_method'' = Some (PStr m)" "m \<in> set FORMATS_METHODS_REQUEST"
    and "has_key c ''url_data_post''" "\<not> has_key c ''url_data''"
  shows "json_fetch w c s
         = (Some (NameError (''Error request: '' @ [CHR 0x27] @ ''url_data'' @ [CHR 0x27])), s)"
proof -
  have P: "\<exists>P. (if has_key c ''url_params'' then subscript c ''url_params'' else Inr (PDict []))
               = Inr P"
    by (auto simp: has_key_iff subscript_def)
  have D: "(if has_key c ''url_data_post'' then subscript c ''url_data'' else Inr (PDict []))
           = Inl (KeyError ''url_data'')"
    using assms(3,4) by (simp add: subscript_None)
  from P obtain PARAMS where P': "(if has_key c ''url_params'' then subscript c ''url_params''
      else Inr (PDict [])) = Inr PARAMS" by blast
  show ?thesis
    unfolding json_fetch_def try_seq2_passes [OF json_fetch_method_ok [OF assms(1,2)]] P' D
    by (simp add: try_except_reraise compute_simps compute_Inr)
qed

lemma send_result:
  "http_send w rq = Inr resp \<Longrightarrow>
   send w rq k s = k resp (s\<lparr>events := events s @ [HttpSend rq]\<rparr>)"
  by (simp add: send_def Let_def)

lemma send_events:
  assumes "\<And>resp. steps (grows any_event) (k resp)"
  shows "\<exists>rest. events (snd (send w rq k s)) = events s @ HttpSend rq # rest"
proof (cases "http_send w rq")
  case (Inl e)
  then show ?thesis by (simp add: send_def Let_def)
next
  case (Inr resp)
  have "grows any_event (s\<lparr>events := events s @ [HttpSend rq]\<rparr>)
          (snd (k resp (s\<lparr>events := events s @ [HttpSend rq]\<rparr>)))"
    using assms by (simp add: steps_def)
  then show ?thesis by (auto simp add: send_result [OF Inr] grows_def)
qed

lemma json_fetch_request:
  assumes "map_of c ''url_method'' = Some (PStr m)" "m \<in> set FORMATS_METHODS_REQUEST"
    and "map_of c ''url_file'' = Some url"
    and "(if has_key c ''url_params'' then subscript c ''url_params'' else Inr (PDict [])) = Inr PARAMS"
    and "(if has_key c ''url_data_post'' then subscript c ''url_data'' else Inr (PDict [])) = Inr DATA"
    and "(if has_key c ''url_header'' then subscript c ''url_header'' else Inr (PDict [])) = Inr HEADER"
  shows "\<exists>rest. events (snd (json_fetch w c s))
           = events s @ HttpSend \<lparr>req_method = PStr m, req_url = url, req_data = DATA,
                                   req_headers = HEADER, req_params = PARAMS\<rparr> # rest"
  unfolding json_fetch_sends [OF assms] snd_try_except_reraise
  by (rule send_events)
     (auto intro!: steps_compute steps_seq steps_raise reflp_grows transp_grows
        simp: steps_write_file_grows steps_config_set_any any_event_def)

lemma json_fetch_status:
  assumes "map_of c ''url_method'' = Some (PStr m)" "m \<in> set FORMATS_METHODS_REQUEST"
    and "map_of c ''url_file'' = Some url"
    and "(if has_key c ''url_params'' then subscript c ''url_params'' else Inr (PDict [])) = Inr PARAMS"
    and "(if has_key c ''url_data_post'' then subscript c ''url_data'' else Inr (PDict [])) = Inr DATA"
    and "(if has_key c ''url_header'' then subscript c ''url_header'' else Inr (PDict [])) = Inr HEADER"
    and "http_send w \<lparr>req_method = PStr m, req_url = url, req_data = DATA, req_headers = HEADER,
                req_params = PARAMS\<rparr> = Inr resp"
    and "status_code resp \<noteq> 200"
  shows "json_fetch w c s
     = (Some (NameError (''Error request: Error request status code: '' @ str_int (status_code resp))),
        s\<lparr>events := events s @ [HttpSend \<lparr>req_method = PStr m, req_url = url, req_data = DATA,
                                   req_headers = HEADER, req_params = PARAMS\<rparr>]\<rparr>)"
  unfolding json_fetch_sends [OF assms(1-6)]
  using assms(8) by (simp add: try_except_reraise send_result [OF assms(7)] raise_def)

lemma json_fetch_ok:
  assumes "map_of c ''url_method'' = Some (PStr m)" "m \<in> set FORMATS_METHODS_REQUEST"
    and "map_of c ''url_file'' = Some url"
    and "(if has_key c ''url_params'' then subscript c ''url_params'' else Inr (PDict [])) = Inr PARAMS"
    and "(if has_key c ''url_data_post'' then subscript c ''url_data'' else Inr (PDict [])) = Inr DATA"
    and "(if has_key c ''url_header'' then subscript c ''url_header'' else Inr (PDict [])) = Inr HEADER"
    and "http_send w \<lparr>req_method = PStr m, req_url = url, req_data = DATA, req_headers = HEADER,
                req_params = PARAMS\<rparr> = Inr resp"
    and "status_code resp = 200" "json_loads w (resp_text resp) = Inr data"
    and "open_raises w (path_join (tmp_dir w) ''data_report.json'') = None"
    and "jvm_raises w (events s @ [HttpSend \<lparr>req_method = PStr m, req_url = url, req_data = DATA,
                req_headers = HEADER, req_params = PARAMS\<rparr>,
             FileWrite (path_join (tmp_dir w) ''data_report.json'') (json_dumps w data)])
           ''config.setDataFile'' [JFile (PStr (path_join (tmp_dir w) ''data_report.json''))] = None"
  shows "json_fetch w c s
     = (None,
        s\<lparr>events := events s @ [HttpSend \<lparr>req_method = PStr m, req_url = url, req_data = DATA,
                                   req_headers = HEADER, req_params = PARAMS\<rparr>,
              FileWrite (path_join (tmp_dir w) ''data_report.json'') (json_dumps w data),
              Call ''config.setDataFile'' [JFile (PStr (path_join (tmp_dir w) ''data_report.json''))]
                (sys_out s)],
           config := (''DataFile'', JFile (PStr (path_join (tmp_dir w) ''data_report.json'')))
                     # config s\<rparr>)"
  unfolding json_fetch_sends [OF assms(1-6)]
  using assms(8-11)
  by (simp add: try_except_reraise send_result [OF assms(7)] compute_def write_file_def
      config_set_def jcall_def Let_def seq_eval)

lemma exprs_defined:
  "\<exists>v. (if has_key c k then subscript c k else Inr (PDict [])) = Inr v"
  by (auto simp: has_key_iff subscript_def)

lemma json_fetch_contract_sent:
  assumes "map_of connection ''url_method'' = Some (PStr m)"
    and "m \<in> set FORMATS_METHODS_REQUEST \<and> map_of connection ''url_file'' = Some url
      \<and> (if has_key connection ''url_params'' then subscript connection ''url_params''
          else Inr (PDict [])) = Inr PARAMS
      \<and> (if has_key connection ''url_data_post'' then subscript connection ''url_data''
          else Inr (PDict [])) = Inr DATA
      \<and> (if has_key connection ''url_header'' then subscript connection ''url_header''
          else Inr (PDict [])) = Inr HEADER"
  shows "(let rq = \<lparr>req_method = PStr m, req_url = url, req_data = DATA, req_headers = HEADER,
                   req_params = PARAMS\<rparr>;
             file_json = path_join (tmp_dir w) ''data_report.json''
         in (\<exists>rest. events (snd (json_fetch w connection s)) = events s @ HttpSend rq # rest)
            \<and> (http_send w rq = Inr resp \<and> status_code resp \<noteq> 200 \<longrightarrow>
                 json_fetch w connection s
                 = (Some (NameError (''Error request: Error request status code: ''
                                     @ str_int (status_code resp))),
                    s\<lparr>events := events s @ [HttpSend rq]\<rparr>))
            \<and> (http_send w rq = Inr resp \<and> status_code resp = 200
                \<and> json_loads w (resp_text resp) = Inr data
                \<and> open_raises w file_json = None
                \<and> jvm_raises w (events s @ [HttpSend rq, FileWrite file_json (json_dumps w data)])
                     ''config.setDataFile'' [JFile (PStr file_json)] = None \<longrightarrow>
                 json_fetch w connection s
                 = (None,
                    s\<lparr>events := events s @ [HttpSend rq, FileWrite file_json (json_dumps w data),
                          Call ''config.setDataFile'' [JFile (PStr file_json)] (sys_out s)],
                       config := (''DataFile'', JFile (PStr file_json)) # config s\<rparr>)))"
proof -
  note h = assms(1) assms(2) [THEN conjunct1] assms(2) [THEN conjunct2, THEN conjunct1]
    assms(2) [THEN conjunct2, THEN conjunct2, THEN conjunct1]
    assms(2) [THEN conjunct2, THEN conjunct2, THEN conjunct2, THEN conjunct1]
    assms(2) [THEN conjunct2, THEN conjunct2, THEN conjunct2, THEN conjunct2]
  show ?thesis
    unfolding Let_def
  proof (intro conjI impI)
    show "\<exists>rest. events (snd (json_fetch w connection s))
            = events s @ HttpSend \<lparr>req_method = PStr m, req_url = url, req_data = DATA,
                 req_headers = HEADER, req_params = PARAMS\<rparr> # rest"
      by (rule json_fetch_request [OF h])
  next
    assume "http_send w \<lparr>req_method = PStr m, req_url = url, req_data = DATA,
                 req_headers = HEADER, req_params = PARAMS\<rparr> = Inr resp
            \<and> status_code resp \<noteq> 200"
    then show "json_fetch w connection s
                 = (Some (NameError (''Error request: Error request status code: ''
                                     @ str_int (status_code resp))),
                    s\<lparr>events := events s @ [HttpSend \<lparr>req_method = PStr m, req_url = url,
                       req_data = DATA, req_headers = HEADER, req_params = PARAMS\<rparr>]\<rparr>)"
      using json_fetch_status [OF h] by simp
  next
    assume "http_send w \<lparr>req_method = PStr m, req_url = url, req_data = DATA,
                 req_headers = HEADER, req_params = PARAMS\<rparr> = Inr resp
        \<and> status_code resp = 200
        \<and> json_loads w (resp_text resp) = Inr data
        \<and> open_raises w (path_join (tmp_dir w) ''data_report.json'') = None
        \<and> jvm_raises w (events s @ [HttpSend \<lparr>req_method = PStr m, req_url = url,
                 req_data = DATA, req_headers = HEADER, req_params = PARAMS\<rparr>,
               FileWrite (path_join (tmp_dir w) ''data_report.json'') (json_dumps w data)])
             ''config.setDataFile'' [JFile (PStr (path_join (tmp_dir w) ''data_report.json''))]
           = None"
    then show "json_fetch w connection s
       = (None,
          s\<lparr>events := events s @ [HttpSend \<lparr>req_method = PStr m, req_url = url,
                   req_data = DATA, req_headers = HEADER, req_params = PARAMS\<rparr>,
                FileWrite (path_join (tmp_dir w) ''data_report.json'') (json_dumps w data),
                Call ''config.setDataFile''
                  [JFile (PStr (path_join (tmp_dir w) ''data_report.json''))] (sys_out s)],
             config := (''DataFile'', JFile (PStr (path_join (tmp_dir w) ''data_report.json'')))
                       # config s\<rparr>)"
      using json_fetch_ok [OF h, of w resp data s] by simp
  qed
qed

text \<open>
  Claim C5. If the connection has no \<^verbatim>\<open>'url_method'\<close>, or a value there that is not a
  string, or a string \<open>m\<close> that is not one of GET, POST, PUT, the fetch raises (for the
  last, \<^verbatim>\<open>'Invalid method request!'\<close>, the spec's InvalidArgument) wrapped as
  \<^verbatim>\<open>NameError('Error request: ...')\<close> (the spec's RemoteFetchError), and nothing has been
  sent. Whatever happens, the fetch ends normally
  or raises a \<^verbatim>\<open>NameError\<close> whose message starts with \<^verbatim>\<open>'Error request: '\<close>. If \<open>m\<close> is one of
  the three, the URL is there and the three optional dictionaries evaluate, the first new
  event is the HTTP request; an answer with a status code other than 200 makes the fetch
  raise \<^verbatim>\<open>NameError('Error request: Error request status code: ' + str(code))\<close>; an answer
  with code 200 whose text parses as JSON is re-serialized and written to
  \<^verbatim>\<open>data_report.json\<close> in the temporary directory, and that file is set as the data file
  of the configuration.
\<close>

theorem json_fetch_contract:
  "(\<not> has_key connection ''url_method'' \<longrightarrow>
      json_fetch w connection s
      = (Some (NameError (''Error request: '' @ [CHR 0x27] @ ''url_method'' @ [CHR 0x27])), s))
   \<and> (map_of connection ''url_method'' = Some v \<and> (\<forall>m. v \<noteq> PStr m) \<longrightarrow>
      json_fetch w connection s
      = (Some (NameError (''Error request: '' @ [CHR 0x27] @ ''url_method'' @ [CHR 0x27]
                          @ '' value is not list!'')), s))
   \<and> (map_of connection ''url_method'' = Some (PStr m) \<and> m \<notin> set FORMATS_METHODS_REQUEST
      \<longrightarrow>
      json_fetch w connection s
      = (Some (NameError ''Error request: Invalid method request!''), s))
   \<and> (fst (json_fetch w connection s) = None
      \<or> (\<exists>msg. fst (json_fetch w connection s) = Some (NameError (''Error request: '' @ msg))))
   \<and> (map_of connection ''url_method'' = Some (PStr m)
      \<and> m \<in> set FORMATS_METHODS_REQUEST \<and> map_of connection ''url_file'' = Some url
      \<and> (if has_key connection ''url_params'' then subscript connection ''url_params''
          else Inr (PDict [])) = Inr PARAMS
      \<and> (if has_key connection ''url_data_post'' then subscript connection ''url_data''
          else Inr (PDict [])) = Inr DATA
      \<and> (if has_key connection ''url_header'' then subscript connection ''url_header''
          else Inr (PDict [])) = Inr HEADER \<longrightarrow>
        (let rq = \<lparr>req_method = PStr m, req_url = url, req_data = DATA, req_headers = HEADER,
                   req_params = PARAMS\<rparr>;
             file_json = path_join (tmp_dir w) ''data_report.json''
         in (\<exists>rest. events (snd (json_fetch w connection s)) = events s @ HttpSend rq # rest)
            \<and> (http_send w rq = Inr resp \<and> status_code resp \<noteq> 200 \<longrightarrow>
                 json_fetch w connection s
                 = (Some (NameError (''Error request: Error request status code: ''
                                     @ str_int (status_code resp))),
                    s\<lparr>events := events s @ [HttpSend rq]\<rparr>))
            \<and> (http_send w rq = Inr resp \<and> status_code resp = 200
                \<and> json_loads w (resp_text resp) = Inr data
                \<and> open_raises w file_json = None
                \<and> jvm_raises w (events s @ [HttpSend rq, FileWrite file_json (json_dumps w data)])
                     ''config.setDataFile'' [JFile (PStr file_json)] = None \<longrightarrow>
                 json_fetch w connection s
                 = (None,
                    s\<lparr>events := events s @ [HttpSend rq, FileWrite file_json (json_dumps w data),
                          Call ''config.setDataFile'' [JFile (PStr file_json)] (sys_out s)],
                       config := (''DataFile'', JFile (PStr file_json)) # config s\<rparr>))))"
proof (intro conjI impI)
  {
    assume "\<not> has_key connection ''url_method''"
    then show "json_fetch w connection s
      = (Some (NameError (''Error request: '' @ [CHR 0x27] @ ''url_method'' @ [CHR 0x27])), s)"
      by (rule json_fetch_no_method)
  }
  {
    assume a: "map_of connection ''url_method'' = Some v \<and> (\<forall>m. v \<noteq> PStr m)"
    show "json_fetch w connection s
      = (Some (NameError (''Error request: '' @ [CHR 0x27] @ ''url_method'' @ [CHR 0x27]
                          @ '' value is not list!'')), s)"
      by (rule json_fetch_method_not_str [OF a [THEN conjunct1] a [THEN conjunct2]])
  }
  {
    assume a: "map_of connection ''url_method'' = Some (PStr m)
               \<and> m \<notin> set FORMATS_METHODS_REQUEST"
    show "json_fetch w connection s
      = (Some (NameError ''Error request: Invalid method request!''), s)"
      by (rule json_fetch_bad_method [OF a [THEN conjunct1] a [THEN conjunct2]])
  }
  show "fst (json_fetch w connection s) = None
      \<or> (\<exists>msg. fst (json_fetch w connection s) = Some (NameError (''Error request: '' @ msg)))"
    by (rule json_fetch_wraps)
  {
    assume mh: "map_of connection ''url_method'' = Some (PStr m)
      \<and> m \<in> set FORMATS_METHODS_REQUEST \<and> map_of connection ''url_file'' = Some url
      \<and> (if has_key connection ''url_params'' then subscript connection ''url_params''
          else Inr (PDict [])) = Inr PARAMS
      \<and> (if has_key connection ''url_data_post'' then subscript connection ''url_data''
          else Inr (PDict [])) = Inr DATA
      \<and> (if has_key connection ''url_header'' then subscript connection ''url_header''
          else Inr (PDict [])) = Inr HEADER"
    show "(let rq = \<lparr>req_method = PStr m, req_url = url, req_data = DATA, req_headers = HEADER,
                   req_params = PARAMS\<rparr>;
             file_json = path_join (tmp_dir w) ''data_report.json''
         in (\<exists>rest. events (snd (json_fetch w connection s)) = events s @ HttpSend rq # rest)
            \<and> (http_send w rq = Inr resp \<and> status_code resp \<noteq> 200 \<longrightarrow>
                 json_fetch w connection s
                 = (Some (NameError (''Error request: Error request status code: ''
                                     @ str_int (status_code resp))),
                    s\<lparr>events := events s @ [HttpSend rq]\<rparr>))
            \<and> (http_send w rq = Inr resp \<and> status_code resp = 200
                \<and> json_loads w (resp_text resp) = Inr data
                \<and> open_raises w file_json = None
                \<and> jvm_raises w (events s @ [HttpSend rq, FileWrite file_json (json_dumps w data)])
                     ''config.setDataFile'' [JFile (PStr file_json)] = None \<longrightarrow>
                 json_fetch w connection s
                 = (None,
                    s\<lparr>events := events s @ [HttpSend rq, FileWrite file_json (json_dumps w data),
                          Call ''config.setDataFile'' [JFile (PStr file_json)] (sys_out s)],
                       config := (''DataFile'', JFile (PStr file_json)) # config s\<rparr>)))"
      by (rule json_fetch_contract_sent [OF mh [THEN conjunct1] mh [THEN conjunct2]])
  }
qed

theorem json_fetch_contract_witness:
  "json_fetch quiet_world (fetch_connection ''DELETE'') init_state
     = (Some (NameError ''Error request: Invalid method request!''), init_state)
   \<and> fst (json_fetch (answering_world 404 ''Not Found'') (fetch_connection ''GET'') init_state)
       = Some (NameError ''Error request: Error request status code: 404'')
   \<and> fst (process_json (answering_world 404 ''Not Found'') ''report.jrxml'' (PBool False)
            (PList [PStr ''pdf'']) [] (fetch_connection ''GET'') (PBool False) [] init_state)
       = Some (NameError ''Error: Error request: Error request status code: 404'')
   \<and> json_fetch quiet_world (fetch_connection ''GET'') init_state
       = (None,
          init_state\<lparr>events :=
              [HttpSend \<lparr>req_method = PStr ''GET'', req_url = PStr ''http://example.org/data'',
                         req_data = PDict [], req_headers = PDict [], req_params = PDict []\<rparr>,
               FileWrite ''/tmp/tmpq1w2e3/data_report.json'' ''{}'',
               Call ''config.setDataFile'' [JFile (PStr ''/tmp/tmpq1w2e3/data_report.json'')]
                 (Handle 1)],
            config := [(''DataFile'', JFile (PStr ''/tmp/tmpq1w2e3/data_report.json''))]\<rparr>)"
proof -
  note a = json_fetch_contract [of "fetch_connection ''DELETE''" quiet_world init_state _
      "''DELETE''"]
  note b = json_fetch_contract [of "fetch_connection ''GET''"
      "answering_world 404 ''Not Found''" init_state _ "''GET''" "PStr ''http://example.org/data''"
      "PDict []" "PDict []" "PDict []" "\<lparr>status_code = 404, resp_text = ''Not Found''\<rparr>"]
  note c = json_fetch_contract [of "fetch_connection ''GET''"
      quiet_world init_state _ "''GET''" "PStr ''http://example.org/data''"
      "PDict []" "PDict []" "PDict []" "\<lparr>status_code = 200, resp_text = ''{}''\<rparr>" "PDict []"]
  have 1: "json_fetch quiet_world (fetch_connection ''DELETE'') init_state
     = (Some (NameError ''Error request: Invalid method request!''), init_state)"
    using a by (simp add: fetch_connection_def FORMATS_METHODS_REQUEST_def)
  have 2: "fst (json_fetch (answering_world 404 ''Not Found'') (fetch_connection ''GET'') init_state)
       = Some (NameError ''Error request: Error request status code: 404'')"
    using b by (simp add: fetch_connection_def FORMATS_METHODS_REQUEST_def has_key_def
        answering_world_def str_int_def str_nat.simps digit_char_def Let_def)
  have 3: "fst (process_json (answering_world 404 ''Not Found'') ''report.jrxml'' (PBool False)
            (PList [PStr ''pdf'']) [] (fetch_connection ''GET'') (PBool False) [] init_state)
       = Some (NameError ''Error: Error request: Error request status code: 404'')"
    by (simp add: json_unfold run_unfold fetch_connection_def answering_world_def quiet_world_def
        init_state_def str_int_def str_nat.simps digit_char_def)
  have 4: "json_fetch quiet_world (fetch_connection ''GET'') init_state
       = (None,
          init_state\<lparr>events :=
              [HttpSend \<lparr>req_method = PStr ''GET'', req_url = PStr ''http://example.org/data'',
                         req_data = PDict [], req_headers = PDict [], req_params = PDict []\<rparr>,
               FileWrite ''/tmp/tmpq1w2e3/data_report.json'' ''{}'',
               Call ''config.setDataFile'' [JFile (PStr ''/tmp/tmpq1w2e3/data_report.json'')]
                 (Handle 1)],
            config := [(''DataFile'', JFile (PStr ''/tmp/tmpq1w2e3/data_report.json''))]\<rparr>)"
    using c by (simp add: fetch_connection_def FORMATS_METHODS_REQUEST_def has_key_def
        quiet_world_def init_state_def path_join_def Let_def)
  from 1 2 3 4 show ?thesis by (intro conjI)
qed

text \<open>
  Claim C10. With a valid method and a URL: when the connection has \<^verbatim>\<open>'url_data_post'\<close> but
  no \<^verbatim>\<open>'url_data'\<close>, the fetch raises \<^verbatim>\<open>KeyError('url_data')\<close>, wrapped, and sends nothing;
  when it has no \<^verbatim>\<open>'url_data_post'\<close>, the request is sent with the empty dictionary as its
  body, whether or not \<^verbatim>\<open>'url_data'\<close> is there; when it has both, the body of the request
  is the value under \<^verbatim>\<open>'url_data'\<close>.
\<close>

theorem json_fetch_body:
  "map_of connection ''url_method'' = Some (PStr m) \<Longrightarrow> m \<in> set FORMATS_METHODS_REQUEST \<Longrightarrow>
   map_of connection ''url_file'' = Some url \<Longrightarrow>
   (has_key connection ''url_data_post'' \<and> \<not> has_key connection ''url_data'' \<longrightarrow>
      json_fetch w connection s
      = (Some (NameError (''Error request: '' @ [CHR 0x27] @ ''url_data'' @ [CHR 0x27])), s))
   \<and> (\<not> has_key connection ''url_data_post'' \<longrightarrow>
        (\<exists>rest PARAMS HEADER.
           events (snd (json_fetch w connection s))
           = events s @ HttpSend \<lparr>req_method = PStr m, req_url = url, req_data = PDict [],
                                  req_headers = HEADER, req_params = PARAMS\<rparr> # rest))
   \<and> (has_key connection ''url_data_post'' \<and> map_of connection ''url_data'' = Some d \<longrightarrow>
        (\<exists>rest PARAMS HEADER.
           events (snd (json_fetch w connection s))
           = events s @ HttpSend \<lparr>req_method = PStr m, req_url = url, req_data = d,
                                  req_headers = HEADER, req_params = PARAMS\<rparr> # rest))"
proof (intro conjI impI)
  assume a: "map_of connection ''url_method'' = Some (PStr m)"
    "m \<in> set FORMATS_METHODS_REQUEST" "map_of connection ''url_file'' = Some url"
  obtain PARAMS where P: "(if has_key connection ''url_params''
      then subscript connection ''url_params'' else Inr (PDict [])) = Inr PARAMS"
    using exprs_defined [of connection "''url_params''"] by (elim exE)
  obtain HEADER where H: "(if has_key connection ''url_header''
      then subscript connection ''url_header'' else Inr (PDict [])) = Inr HEADER"
    using exprs_defined [of connection "''url_header''"] by (elim exE)
  {
    assume "has_key connection ''url_data_post'' \<and> \<not> has_key connection ''url_data''"
    then show "json_fetch w connection s
      = (Some (NameError (''Error request: '' @ [CHR 0x27] @ ''url_data'' @ [CHR 0x27])), s)"
      using json_fetch_no_data [OF a(1,2), of w s] by simp
  }
  {
    assume "\<not> has_key connection ''url_data_post''"
    then have D: "(if has_key connection ''url_data_post'' then subscript connection ''url_data''
          else Inr (PDict [])) = Inr (PDict [])" by simp
    from json_fetch_request [OF a P D H, of w s] obtain rest where
      "events (snd (json_fetch w connection s))
       = events s @ HttpSend \<lparr>req_method = PStr m, req_url = url, req_data = PDict [],
                              req_headers = HEADER, req_params = PARAMS\<rparr> # rest"
      by (elim exE)
    then show "\<exists>rest PARAMS HEADER.
           events (snd (json_fetch w connection s))
           = events s @ HttpSend \<lparr>req_method = PStr m, req_url = url, req_data = PDict [],
                                  req_headers = HEADER, req_params = PARAMS\<rparr> # rest"
      by (intro exI)
  }
  {
    assume "has_key connection ''url_data_post'' \<and> map_of connection ''url_data'' = Some d"
    then have D: "(if has_key connection ''url_data_post'' then subscript connection ''url_data''
          else Inr (PDict [])) = Inr d" by (simp add: subscript_Some)
    from json_fetch_request [OF a P D H, of w s] obtain rest where
      "events (snd (json_fetch w connection s))
       = events s @ HttpSend \<lparr>req_method = PStr m, req_url = url, req_data = d,
                              req_headers = HEADER, req_params = PARAMS\<rparr> # rest"
      by (elim exE)
    then show "\<exists>rest PARAMS HEADER.
           events (snd (json_fetch w connection s))
           = events s @ HttpSend \<lparr>req_method = PStr m, req_url = url, req_data = d,
                                  req_headers = HEADER, req_params = PARAMS\<rparr> # rest"
      by (intro exI)
  }
qed

theorem json_fetch_body_witness:
  "json_fetch quiet_world ((''url_data_post'', PBool True) # fetch_connection ''POST'') init_state
     = (Some (NameError (''Error request: '' @ [CHR 0x27] @ ''url_data'' @ [CHR 0x27])),
        init_state)
   \<and> hd (events (snd (json_fetch quiet_world
                        ((''url_data'', PStr ''a=1'') # fetch_connection ''POST'') init_state)))
       = HttpSend \<lparr>req_method = PStr ''POST'', req_url = PStr ''http://example.org/data'',
                    req_data = PDict [], req_headers = PDict [], req_params = PDict []\<rparr>
   \<and> hd (events (snd (json_fetch quiet_world
                        ((''url_data_post'', PBool True) # (''url_data'', PStr ''a=1'')
                         # fetch_connection ''POST'') init_state)))
       = HttpSend \<lparr>req_method = PStr ''POST'', req_url = PStr ''http://example.org/data'',
                    req_data = PStr ''a=1'', req_headers = PDict [], req_params = PDict []\<rparr>"
proof -
  note a = json_fetch_body [of "(''url_data_post'', PBool True) # fetch_connection ''POST''"
      "''POST''" "PStr ''http://example.org/data''" quiet_world init_state]
  note b = json_fetch_body [of "(''url_data'', PStr ''a=1'') # fetch_connection ''POST''"
      "''POST''" "PStr ''http://example.org/data''" quiet_world init_state]
  note c = json_fetch_body [of "(''url_data_post'', PBool True) # (''url_data'', PStr ''a=1'')
        # fetch_connection ''POST''"
      "''POST''" "PStr ''http://example.org/data''" quiet_world init_state "PStr ''a=1''"]
  have 1: "json_fetch quiet_world ((''url_data_post'', PBool True) # fetch_connection ''POST'')
      init_state
     = (Some (NameError (''Error request: '' @ [CHR 0x27] @ ''url_data'' @ [CHR 0x27])),
        init_state)"
    using a by (simp add: fetch_connection_def FORMATS_METHODS_REQUEST_def has_key_def)
  have 2: "hd (events (snd (json_fetch quiet_world
                        ((''url_data'', PStr ''a=1'') # fetch_connection ''POST'') init_state)))
       = HttpSend \<lparr>req_method = PStr ''POST'', req_url = PStr ''http://example.org/data'',
                    req_data = PDict [], req_headers = PDict [], req_params = PDict []\<rparr>"
    using b by (simp add: json_unfold run_unfold fetch_connection_def quiet_world_def
        init_state_def)
  have 3: "hd (events (snd (json_fetch quiet_world
                        ((''url_data_post'', PBool True) # (''url_data'', PStr ''a=1'')
                         # fetch_connection ''POST'') init_state)))
       = HttpSend \<lparr>req_method = PStr ''POST'', req_url = PStr ''http://example.org/data'',
                    req_data = PStr ''a=1'', req_headers = PDict [], req_params = PDict []\<rparr>"
    using c by (simp add: json_unfold run_unfold fetch_connection_def quiet_world_def
        init_state_def)
  from 1 2 3 show ?thesis by (intro conjI)
qed

section \<open>\<^verbatim>\<open>process_json\<close>: the fill, and the call as a whole\<close>

lemma json_fill_unsupported:
  "getDbType w s \<noteq> Some Jsonql \<Longrightarrow>
   json_fill w c s = (Some (NameError ''Error: Invalid json input!''), s)"
  by (simp add: json_fill_def try_except_def raise_def reraise_def)

lemma steps_jcall_dbtype: "steps (same db_type_field) (jcall w n a)"
  by (auto simp: steps_def same_def db_type_field_def jcall_def Let_def split: option.splits)

lemma steps_config_set_dbtype: "f \<noteq> ''DbType'' \<Longrightarrow> steps (same db_type_field) (config_set w f v)"
  by (auto simp: steps_def same_def db_type_field_def config_set_def jcall_def Let_def seq_eval
      split: option.splits)

lemma steps_copy_field_dbtype:
  "f \<noteq> ''DbType'' \<Longrightarrow> steps (same db_type_field) (copy_field w d k f conv)"
  unfolding copy_field_def
  by (intro steps_cond steps_compute steps_config_set_dbtype reflp_same)

lemma steps_write_file_dbtype: "steps (same db_type_field) (write_file w p c)"
  by (auto simp: steps_def same_def db_type_field_def write_file_def split: option.splits)

lemma steps_send:
  fixes R :: "state \<Rightarrow> state \<Rightarrow> bool"
  assumes "\<And>s. R s (s\<lparr>events := events s @ [HttpSend rq]\<rparr>)" "transp R" "\<And>resp. steps R (k resp)"
  shows "steps R (send w rq k)"
  unfolding steps_def
proof
  fix s :: state
  let ?s' = "s\<lparr>events := events s @ [HttpSend rq]\<rparr>"
  show "R s (snd (send w rq k s))"
  proof (cases "http_send w rq")
    case (Inl e)
    then show ?thesis using assms(1) by (simp add: send_def Let_def)
  next
    case (Inr resp)
    have "R s ?s'" by (rule assms(1))
    moreover have "R ?s' (snd (k resp ?s'))" using assms(3) by (simp add: steps_def)
    ultimately have "R s (snd (k resp ?s'))" using assms(2) by (metis transpD)
    then show ?thesis using Inr by (simp add: send_def Let_def)
  qed
qed

lemma same_dbtype_event: "same db_type_field s (s\<lparr>events := events s @ [e]\<rparr>)"
  by (simp add: same_def db_type_field_def)

lemma steps_json_fetch_dbtype: "steps (same db_type_field) (json_fetch w c)"
  unfolding json_fetch_def
  by (intro steps_try_except steps_seq steps_compute steps_send reflp_same transp_same
        same_dbtype_event steps_raise)
     (auto simp: reraise_def steps_raise steps_cond reflp_same transp_same steps_write_file_dbtype
        steps_config_set_dbtype list_all_iff
        split: pyval.splits intro!: steps_compute steps_seq steps_send same_dbtype_event)

lemma steps_jcall_state_dbtype: "steps (same db_type_field) (\<lambda>s. jcall w n (a s) s)"
  by (auto simp: steps_def same_def db_type_field_def jcall_def Let_def split: option.splits)

lemma steps_jcall_state_grows:
  "P n \<Longrightarrow> steps (grows (calls_only P)) (\<lambda>s. jcall w n (a s) s)"
  by (auto simp: steps_def grows_def jcall_def calls_only_def Let_def split: option.splits)

lemma steps_assign: "(\<And>s. R s (f s)) \<Longrightarrow> steps R (\<lambda>s. (None, f s))"
  by (simp add: steps_def)

lemma steps_json_connection_dbtype: "steps (same db_type_field) (json_connection w c)"
  unfolding json_connection_def
  by (intro steps_cond steps_seq reflp_same transp_same)
     (simp add: steps_cond steps_raise steps_copy_field_dbtype steps_json_fetch_dbtype reflp_same)

lemma steps_json_classpath_dbtype: "steps (same db_type_field) (json_classpath w r)"
  by (simp add: json_classpath_def steps_jcall_dbtype steps_skip reflp_same)

lemma steps_call_compile_dbtype: "steps (same db_type_field) (call_compile w r)"
  by (simp add: steps_def same_def db_type_field_def call_compile_def split_beta)

lemma steps_assign_jparameters_dbtype:
  "steps (same db_type_field) (\<lambda>s. (None, s\<lparr>jparameters := v\<rparr>))"
  by (simp add: steps_def same_def db_type_field_def)

lemma steps_json_report_dbtype: "steps (same db_type_field) (json_report w i)"
  unfolding json_report_def
  by (intro steps_seq reflp_same transp_same)
     (auto simp: steps_call_compile_dbtype steps_jcall_state_dbtype reflp_same transp_same
        same_def db_type_field_def
        intro!: steps_cond steps_seq steps_assign)

lemma grows_event: "ok e \<Longrightarrow> grows ok s (s\<lparr>events := events s @ [e]\<rparr>)"
  by (simp add: grows_def)

lemma steps_flush_out_grows: "P ''jvSystem.out.flush'' \<Longrightarrow> steps (grows (calls_only P)) flush_out"
  by (simp add: steps_def grows_def flush_out_def calls_only_def)

lemma steps_compile_grows: "steps (grows (calls_only no_fill)) (compile w r)"
  unfolding compile_def
  by (intro steps_seq reflp_grows transp_grows)
     (auto simp: steps_raise reflp_grows transp_grows reraise_def steps_new_config_grows
        steps_config_set_grows steps_flush_out_grows steps_jcall_state_grows steps_jcall_grows
        no_fill_def
        intro!: steps_cond steps_seq steps_try_finally steps_try_except)

lemma steps_call_compile_grows: "steps (grows (calls_only no_fill)) (call_compile w r)"
  using steps_compile_grows [of w r]
  by (simp add: steps_def grows_def call_compile_def split_beta)

lemma steps_json_report_grows: "steps (grows (calls_only no_fill)) (json_report w i)"
  unfolding json_report_def
  by (intro steps_seq reflp_grows transp_grows)
     (auto simp: steps_call_compile_grows reflp_grows transp_grows no_fill_def grows_def
        steps_jcall_state_grows
        intro!: steps_cond steps_seq steps_assign)

lemma steps_json_classpath_grows: "steps (grows (calls_only no_fill)) (json_classpath w r)"
  by (simp add: json_classpath_def steps_jcall_grows steps_skip reflp_grows no_fill_def)

lemma steps_json_fetch_grows: "steps (grows (calls_only no_fill)) (json_fetch w c)"
  unfolding json_fetch_def
  by (intro steps_try_except steps_seq steps_compute steps_send reflp_grows transp_grows
        steps_raise)
     (auto simp: reraise_def steps_raise steps_cond reflp_grows transp_grows steps_write_file_grows
        steps_config_set_grows list_all_iff no_fill_def calls_only_def grows_event
        split: pyval.splits intro!: steps_compute steps_seq steps_send)

lemma steps_json_connection_grows: "steps (grows (calls_only no_fill)) (json_connection w c)"
  unfolding json_connection_def
  by (intro steps_cond steps_seq reflp_grows transp_grows)
     (simp add: steps_cond steps_raise steps_copy_field_grows steps_json_fetch_grows reflp_grows
        no_fill_def)

lemma steps_json_set_db_type_grows: "steps (grows (calls_only no_fill)) (json_set_db_type w c)"
  unfolding json_set_db_type_def
  by (auto simp: steps_config_set_grows steps_skip reflp_grows no_fill_def intro!: steps_compute)

lemma steps_json_output_grows:
  "steps (grows (calls_only no_fill))
     (\<lambda>s. if truthy (output_file s) then config_set w ''Output'' (Py (output_file s)) s
          else seq [
                 (\<lambda>s. (None, s\<lparr>file_out := Some a, output_file := b\<rparr>)),
                 config_set w ''Output'' (Py c)] s)"
  by (auto simp: steps_def grows_def config_set_def jcall_def Let_def seq_eval calls_only_def
      no_fill_def split: option.splits)

lemma steps_json_configure_grows:
  "steps (grows (calls_only no_fill)) (json_configure w i f p c l)"
  unfolding json_configure_def
  by (intro steps_seq reflp_grows transp_grows)
     (simp add: steps_new_config_grows steps_config_set_grows steps_cond reflp_grows
        steps_json_set_db_type_grows steps_json_output_grows no_fill_def)

lemma config_set_success:
  "fst (config_set w f v s) = None \<Longrightarrow> config (snd (config_set w f v s)) = (f, v) # config s"
  by (auto simp: config_set_def jcall_def Let_def seq_eval split: option.splits)

lemma json_configure_db_type:
  assumes "fst (json_configure w i f p c l s) = None"
    and "json_set_db_type w c = config_set w ''DbType'' (DsType t)"
  shows "db_type_field (snd (json_configure w i f p c l s)) = Some (DsType t)"
proof -
  define front where "front = [
       new_config w,
       config_set w ''Input'' (Py (PStr i)),
       cond (truthy l) (config_set w ''Locale'' (Py l)),
       (\<lambda>s. if truthy (output_file s) then config_set w ''Output'' (Py (output_file s)) s
            else seq [
                   (\<lambda>s. (None, s\<lparr>file_out :=
                            Some (path_join (dirname i) (name_file i @ ''.jasper'')),
                          output_file :=
                            PStr (path_join (dirname i) (name_file i @ ''.pdf''))\<rparr>)),
                   config_set w ''Output'' (Py (PStr (dirname i)))] s),
       config_set w ''OutputFormats'' (AsList f),
       cond (p \<noteq> []) (config_set w ''Params'' (AsList (render_params p)))]"
  have eq: "json_configure w i f p c l = seq (front @ [config_set w ''DbType'' (DsType t)])"
    unfolding json_configure_def front_def assms(2) by simp
  show ?thesis
  proof (cases "fst (seq front s) = None")
    case True
    then have r: "json_configure w i f p c l s
                  = config_set w ''DbType'' (DsType t) (snd (seq front s))"
      by (simp add: eq seq_snoc)
    with assms(1) have "fst (config_set w ''DbType'' (DsType t) (snd (seq front s))) = None"
      by simp
    from config_set_success [OF this] show ?thesis by (simp add: r db_type_field_def)
  next
    case False
    then have "json_configure w i f p c l s = seq front s" by (auto simp add: eq seq_snoc)
    with assms(1) False show ?thesis by simp
  qed
qed

lemma getDbType_field:
  "db_type_field s = Some (DsType t) \<Longrightarrow> getDbType w s = Some t"
  by (simp add: getDbType_def db_type_field_def)


lemma json_body_unsupported:
  assumes "json_set_db_type w c = config_set w ''DbType'' (DsType t)" "t \<noteq> Jsonql"
  shows "fst (seq [json_configure w i f p c l, json_connection w c, json_classpath w r,
                   json_report w i, json_fill w c] s) \<noteq> None
       \<and> grows (calls_only no_fill) s
            (snd (seq [json_configure w i f p c l, json_connection w c, json_classpath w r,
                       json_report w i, json_fill w c] s))"
proof -
  let ?rest = "seq [json_connection w c, json_classpath w r, json_report w i]"
  let ?s1 = "snd (json_configure w i f p c l s)"
  let ?s2 = "snd (?rest ?s1)"
  have body: "seq [json_configure w i f p c l, json_connection w c, json_classpath w r,
                   json_report w i, json_fill w c] s
        = (if fst (json_configure w i f p c l s) = None
           then (if fst (?rest ?s1) = None then json_fill w c ?s2 else ?rest ?s1)
           else json_configure w i f p c l s)"
    using seq_cons_snoc [of "json_configure w i f p c l"
        "[json_connection w c, json_classpath w r, json_report w i]" "json_fill w c" s]
    by simp
  have g1: "grows (calls_only no_fill) s ?s1"
    using steps_json_configure_grows by (simp add: steps_def)
  have "steps (grows (calls_only no_fill)) ?rest"
    by (intro steps_seq reflp_grows transp_grows)
       (simp add: steps_json_connection_grows steps_json_classpath_grows steps_json_report_grows)
  then have "grows (calls_only no_fill) ?s1 ?s2" by (simp add: steps_def)
  with g1 have g2: "grows (calls_only no_fill) s ?s2" using transp_grows by (metis transpD)
  have "steps (same db_type_field) ?rest"
    by (intro steps_seq reflp_same transp_same)
       (simp add: steps_json_connection_dbtype steps_json_classpath_dbtype steps_json_report_dbtype)
  then have k: "db_type_field ?s2 = db_type_field ?s1" by (simp add: steps_def same_def)
  show ?thesis
  proof (cases "fst (json_configure w i f p c l s) = None")
    case True
    from json_configure_db_type [OF True assms(1)] k
    have "getDbType w ?s2 = Some t" by (simp add: getDbType_field)
    with assms(2) have fill: "json_fill w c ?s2 = (Some (NameError ''Error: Invalid json input!''), ?s2)"
      by (simp add: json_fill_unsupported)
    show ?thesis
    proof (cases "fst (?rest ?s1) = None")
      case True
      with \<open>fst (json_configure w i f p c l s) = None\<close> fill g2 show ?thesis
        by (simp only: body if_True) simp
    next
      case False
      with \<open>fst (json_configure w i f p c l s) = None\<close> g2 show ?thesis
        by (simp only: body if_True if_False) simp
    qed
  next
    case False
    with g1 show ?thesis by (simp only: body if_False) simp
  qed
qed

lemma process_json_shape:
  "process_json w i out f p c l r s =
     (let s1 = s\<lparr>output_file := out, file_out := None,
                 events := events s @ [TempDirCreate (tmp_dir w)]\<rparr>;
          res = seq [process_json_validate i f,
                     try_except
                       (seq [json_configure w i f p c l, json_connection w c, json_classpath w r,
                             json_report w i, json_fill w c])
                       (reraise ''Error: '')] s1
      in (fst res, (snd res)\<lparr>events := events (snd res) @ [TempDirRemove (tmp_dir w)]\<rparr>))"
  by (simp add: process_json_def with_tmp_dir_def emit_def try_finally_def seq_eval Let_def
      split: prod.splits)

lemma grows_trans: "grows ok a b \<Longrightarrow> grows ok b c \<Longrightarrow> grows ok a c"
  by (auto simp: grows_def)

lemma process_json_unsupported:
  assumes "json_set_db_type w c = config_set w ''DbType'' (DsType t)" "t \<noteq> Jsonql"
  shows "fst (process_json w i out f p c l r s) \<noteq> None
       \<and> grows (calls_only no_fill) s (snd (process_json w i out f p c l r s))"
proof -
  define s1 where "s1 = s\<lparr>output_file := out, file_out := None,
                 events := events s @ [TempDirCreate (tmp_dir w)]\<rparr>"
  define body where "body = seq [json_configure w i f p c l, json_connection w c,
      json_classpath w r, json_report w i, json_fill w c]"
  define res where "res = seq [process_json_validate i f, try_except body (reraise ''Error: '')] s1"
  have b: "fst (body s1) \<noteq> None" "grows (calls_only no_fill) s1 (snd (body s1))"
    unfolding body_def using json_body_unsupported [OF assms, of i f p l r s1] by blast+
  have v: "snd (process_json_validate i f s1) = s1" by (rule process_json_validate_state)
  have res: "fst res \<noteq> None \<and> grows (calls_only no_fill) s1 (snd res)"
  proof (cases "fst (process_json_validate i f s1) = None")
    case True
    then have "res = try_except body (reraise ''Error: '') s1"
      unfolding res_def using v by (simp add: seq_Cons2_if seq_single)
    then show ?thesis
      using b by (simp add: fst_try_except_reraise snd_try_except_reraise)
  next
    case False
    then have "res = process_json_validate i f s1"
      unfolding res_def by (auto simp add: seq_Cons2_if)
    then show ?thesis using False v by (simp add: grows_refl)
  qed
  have "grows (calls_only no_fill) s s1"
    unfolding s1_def by (simp add: grows_def calls_only_def)
  with res have "grows (calls_only no_fill) s (snd res)" by (blast intro: grows_trans)
  moreover have "grows (calls_only no_fill) (snd res)
      ((snd res)\<lparr>events := events (snd res) @ [TempDirRemove (tmp_dir w)]\<rparr>)"
    by (simp add: grows_def calls_only_def)
  ultimately have g: "grows (calls_only no_fill) s
      ((snd res)\<lparr>events := events (snd res) @ [TempDirRemove (tmp_dir w)]\<rparr>)"
    by (rule grows_trans)
  have "process_json w i out f p c l r s
        = (fst res, (snd res)\<lparr>events := events (snd res) @ [TempDirRemove (tmp_dir w)]\<rparr>)"
    unfolding res_def body_def s1_def by (simp only: process_json_shape Let_def)
  with res g show ?thesis by simp
qed

lemma process_json_validate_indep:
  "fst (process_json_validate i f s) = fst (process_json_validate i f s')"
  by (auto simp: process_json_validate_def cond_def skip_def raise_def compute_def seq_eval
      split: pyval.splits sum.splits)

lemma noraise_json_set_db_type: "quiet w \<Longrightarrow> noraise (json_set_db_type w c)"
  unfolding json_set_db_type_def
  by (auto simp: noraise_config_set noraise_skip intro!: noraise_compute_subscript)

lemma noraise_json_output:
  "quiet w \<Longrightarrow>
   noraise (\<lambda>s. if truthy (output_file s) then config_set w ''Output'' (Py (output_file s)) s
          else seq [
                 (\<lambda>s. (None, s\<lparr>file_out := Some a, output_file := b\<rparr>)),
                 config_set w ''Output'' (Py c)] s)"
  by (simp add: noraise_def config_set_def jcall_def Let_def seq_eval quiet_def)

lemma noraise_json_configure: "quiet w \<Longrightarrow> noraise (json_configure w i f p c l)"
  unfolding json_configure_def
  by (intro noraise_seq)
     (simp add: noraise_new_config noraise_config_set noraise_cond noraise_json_set_db_type
        noraise_json_output)

lemma noraise_json_connection:
  "quiet w \<Longrightarrow> \<not> has_key c ''url_file'' \<Longrightarrow> c = [] \<or> has_key c ''data_file'' \<Longrightarrow>
   noraise (json_connection w c)"
  unfolding json_connection_def
  by (cases "c = []")
     (auto simp: cond_simps noraise_skip noraise_copy_field intro!: noraise_seq)

lemma noraise_json_classpath: "quiet w \<Longrightarrow> noraise (json_classpath w r)"
  by (simp add: json_classpath_def noraise_jcall noraise_skip)

lemma noraise_call_compile: "quiet w \<Longrightarrow> i \<noteq> [] \<Longrightarrow> noraise (call_compile w (PStr i))"
  using compile_quiet [of "PStr i" w]
  by (simp add: noraise_def call_compile_def split_beta)

lemma noraise_jcall_state: "quiet w \<Longrightarrow> noraise (\<lambda>s. jcall w n (a s) s)"
  by (simp add: noraise_def jcall_def quiet_def Let_def)

lemma noraise_assign: "noraise (\<lambda>s. (None, f s))"
  by (simp add: noraise_def)

lemma noraise_json_report: "quiet w \<Longrightarrow> i \<noteq> [] \<Longrightarrow> noraise (json_report w i)"
  unfolding json_report_def
  by (intro noraise_seq)
     (auto simp: noraise_call_compile noraise_jcall_state noraise_assign
        intro!: noraise_cond noraise_seq)

lemma json_body_unsupported_quiet:
  assumes "quiet w" "i \<noteq> []" "noraise (json_connection w c)"
    and "json_set_db_type w c = config_set w ''DbType'' (DsType t)" "t \<noteq> Jsonql"
  shows "fst (seq [json_configure w i f p c l, json_connection w c, json_classpath w r,
                   json_report w i, json_fill w c] s)
         = Some (NameError ''Error: Invalid json input!'')"
proof -
  let ?rest = "seq [json_connection w c, json_classpath w r, json_report w i]"
  let ?s1 = "snd (json_configure w i f p c l s)"
  let ?s2 = "snd (?rest ?s1)"
  have c: "fst (json_configure w i f p c l s) = None"
    using noraise_json_configure [OF assms(1)] by (simp add: noraise_def)
  have "noraise ?rest"
    by (intro noraise_seq)
       (simp add: assms(3) noraise_json_classpath [OF assms(1)]
          noraise_json_report [OF assms(1,2)])
  then have r: "fst (?rest ?s1) = None" by (simp add: noraise_def)
  have "steps (same db_type_field) ?rest"
    by (intro steps_seq reflp_same transp_same)
       (simp add: steps_json_connection_dbtype steps_json_classpath_dbtype steps_json_report_dbtype)
  then have k: "db_type_field ?s2 = db_type_field ?s1" by (simp add: steps_def same_def)
  from json_configure_db_type [OF c assms(4)] k
  have "getDbType w ?s2 = Some t" by (simp add: getDbType_field)
  with assms(5) have fill: "json_fill w c ?s2 = (Some (NameError ''Error: Invalid json input!''), ?s2)"
    by (simp add: json_fill_unsupported)
  have "seq [json_configure w i f p c l, json_connection w c, json_classpath w r,
                   json_report w i, json_fill w c] s = json_fill w c ?s2"
    using seq_cons_snoc [of "json_configure w i f p c l"
        "[json_connection w c, json_classpath w r, json_report w i]" "json_fill w c" s] c r
    by simp
  with fill show ?thesis by simp
qed

lemma process_json_result:
  assumes "fst (process_json_validate i f s) = None"
  shows "fst (process_json w i out f p c l r s)
       = map_option (\<lambda>e. NameError (''Error: '' @ str_exn e))
           (fst (seq [json_configure w i f p c l, json_connection w c, json_classpath w r,
                      json_report w i, json_fill w c]
                 (s\<lparr>output_file := out, file_out := None,
                    events := events s @ [TempDirCreate (tmp_dir w)]\<rparr>)))"
proof -
  define s1 where "s1 = s\<lparr>output_file := out, file_out := None,
                 events := events s @ [TempDirCreate (tmp_dir w)]\<rparr>"
  define body where "body = seq [json_configure w i f p c l, json_connection w c,
      json_classpath w r, json_report w i, json_fill w c]"
  define res where "res = seq [process_json_validate i f, try_except body (reraise ''Error: '')] s1"
  have v: "snd (process_json_validate i f s1) = s1" by (rule process_json_validate_state)
  have "fst (process_json_validate i f s1) = None"
    using assms process_json_validate_indep [of i f s1 s] by simp
  then have "res = try_except body (reraise ''Error: '') s1"
    unfolding res_def using v by (simp add: seq_Cons2_if seq_single)
  then have "fst res = map_option (\<lambda>e. NameError (''Error: '' @ str_exn e)) (fst (body s1))"
    by (simp add: fst_try_except_reraise)
  moreover have "process_json w i out f p c l r s
        = (fst res, (snd res)\<lparr>events := events (snd res) @ [TempDirRemove (tmp_dir w)]\<rparr>)"
    unfolding res_def body_def s1_def by (simp only: process_json_shape Let_def)
  ultimately show ?thesis unfolding body_def s1_def by simp
qed

lemma process_json_unsupported_quiet:
  assumes "quiet w" "fst (process_json_validate i f s) = None" "noraise (json_connection w c)"
    and "json_set_db_type w c = config_set w ''DbType'' (DsType t)" "t \<noteq> Jsonql"
  shows "fst (process_json w i out f p c l r s)
         = Some (NameError ''Error: Error: Invalid json input!'')"
proof -
  have i: "i \<noteq> []"
    using assms(2)
    by (auto simp: process_json_validate_def cond_def raise_def seq_eval)
  show ?thesis
    by (simp add: process_json_result [OF assms(2)]
        json_body_unsupported_quiet [OF assms(1) i assms(3-5)])
qed

lemma process_json_missing_quiet:
  assumes "quiet w" "fst (process_json_validate i f s) = None"
    and "c \<noteq> []" "\<not> has_key c ''data_file''" "\<not> has_key c ''url_file''"
  shows "fst (process_json w i out f p c l r s)
         = Some (NameError ''Error: No data sources were reported'')"
proof -
  let ?s1 = "s\<lparr>output_file := out, file_out := None,
                 events := events s @ [TempDirCreate (tmp_dir w)]\<rparr>"
  have c: "fst (json_configure w i f p c l ?s1) = None"
    using noraise_json_configure [OF assms(1)] by (simp add: noraise_def)
  have "fst (seq [json_configure w i f p c l, json_connection w c, json_classpath w r,
                      json_report w i, json_fill w c] ?s1)
        = Some (NameError ''No data sources were reported'')"
    using c json_connection_missing [OF assms(3-5)]
    by (simp add: seq_Cons2_if)
  then show ?thesis by (simp add: process_json_result [OF assms(2)])
qed

lemma steps_jcall_paths: "steps (same paths) (jcall w n a)"
  by (auto simp: steps_def same_def paths_def jcall_def Let_def split: option.splits)

lemma steps_put_param_paths: "steps (same paths) (put_param w c k n)"
  unfolding put_param_def
  by (intro steps_cond steps_compute steps_seq reflp_same transp_same)
     (simp add: steps_jcall_paths steps_assign same_def paths_def)

lemma steps_put_param_any: "steps (grows any_event) (put_param w c k n)"
  unfolding put_param_def
  by (intro steps_cond steps_compute steps_seq reflp_grows transp_grows)
     (simp add: steps_jcall_any steps_assign grows_def)

lemma noraise_put_param: "quiet w \<Longrightarrow> noraise (put_param w c k n)"
proof (cases "has_key c k")
  case True
  assume q: "quiet w"
  have "noraise (compute (subscript c k)
          (\<lambda>v. seq [
                 jcall w ''parameters.put'' [Py (PStr n), JLocale v],
                 (\<lambda>s. (None, s\<lparr>jparameters := (n, JLocale v) # jparameters s\<rparr>))]))"
    by (intro noraise_compute_subscript [OF True] noraise_seq)
       (simp add: noraise_jcall [OF q] noraise_assign)
  with True show ?thesis by (simp add: put_param_def cond_simps)
next
  case False
  then show ?thesis by (simp add: put_param_def cond_simps noraise_skip)
qed

lemma json_fill_jsonql:
  assumes "quiet w" "getDbType w s = Some Jsonql" "file_out s = Some fo"
  shows "fst (json_fill w c s) = None
     \<and> (\<exists>es ps. events (snd (json_fill w c s))
            = events s @ es
              @ [Call ''jvJasperFillManager.fillReport'' [Py (PStr fo), JMap ps, Ref ''ds'']
                   (sys_out s),
                 Call ''jvJasperExportManager.exportReportToPdfFile''
                   [Ref ''jasperPrint'', Py (output_file s)] (sys_out s)])"
proof -
  define pre where "pre = seq [
                   jcall w ''jvDb'' [],
                   jcall w ''db.getJsonQLDataSource'' [Ref ''config''],
                   put_param w c ''json_locale'' ''JSON_LOCALE'',
                   put_param w c ''json_date_pattern'' ''JSON_DATE_PATTERN'',
                   put_param w c ''json_number_pattern'' ''JSON_NUMBER_PATTERN'',
                   put_param w c ''json_time_zone'' ''JSON_TIME_ZONE'']"
  define s6 where "s6 = snd (pre s)"
  have nr: "fst (pre s) = None"
    unfolding pre_def using noraise_seq [of "[
                   jcall w ''jvDb'' [],
                   jcall w ''db.getJsonQLDataSource'' [Ref ''config''],
                   put_param w c ''json_locale'' ''JSON_LOCALE'',
                   put_param w c ''json_date_pattern'' ''JSON_DATE_PATTERN'',
                   put_param w c ''json_number_pattern'' ''JSON_NUMBER_PATTERN'',
                   put_param w c ''json_time_zone'' ''JSON_TIME_ZONE'']"]
    by (simp add: noraise_def [of "seq _"] noraise_jcall [OF assms(1)]
        noraise_put_param [OF assms(1)])
  have "steps (same paths) pre"
    unfolding pre_def
    by (intro steps_seq reflp_same transp_same) (simp add: steps_jcall_paths steps_put_param_paths)
  then have p: "sys_out s6 = sys_out s" "file_out s6 = file_out s" "output_file s6 = output_file s"
    by (simp_all add: steps_def same_def paths_def s6_def)
  have "steps (grows any_event) pre"
    unfolding pre_def
    by (intro steps_seq reflp_grows transp_grows) (simp add: steps_jcall_any steps_put_param_any)
  then obtain es where es: "events s6 = events s @ es"
    by (auto simp add: steps_def grows_def s6_def)
  have parts: "[
                   jcall w ''jvDb'' [],
                   jcall w ''db.getJsonQLDataSource'' [Ref ''config''],
                   put_param w c ''json_locale'' ''JSON_LOCALE'',
                   put_param w c ''json_date_pattern'' ''JSON_DATE_PATTERN'',
                   put_param w c ''json_number_pattern'' ''JSON_NUMBER_PATTERN'',
                   put_param w c ''json_time_zone'' ''JSON_TIME_ZONE'',
                   (\<lambda>s. case file_out s of
                          None \<Rightarrow> raise (UnboundLocalError ''file_out'') s
                        | Some fo \<Rightarrow>
                            jcall w ''jvJasperFillManager.fillReport''
                              [Py (PStr fo), JMap (jparameters s), Ref ''ds''] s),
                   (\<lambda>s. jcall w ''jvJasperExportManager.exportReportToPdfFile''
                          [Ref ''jasperPrint'', Py (output_file s)] s)]
         = [
                   jcall w ''jvDb'' [],
                   jcall w ''db.getJsonQLDataSource'' [Ref ''config''],
                   put_param w c ''json_locale'' ''JSON_LOCALE'',
                   put_param w c ''json_date_pattern'' ''JSON_DATE_PATTERN'',
                   put_param w c ''json_number_pattern'' ''JSON_NUMBER_PATTERN'',
                   put_param w c ''json_time_zone'' ''JSON_TIME_ZONE''] @ [
                   (\<lambda>s. case file_out s of
                          None \<Rightarrow> raise (UnboundLocalError ''file_out'') s
                        | Some fo \<Rightarrow>
                            jcall w ''jvJasperFillManager.fillReport''
                              [Py (PStr fo), JMap (jparameters s), Ref ''ds''] s),
                   (\<lambda>s. jcall w ''jvJasperExportManager.exportReportToPdfFile''
                          [Ref ''jasperPrint'', Py (output_file s)] s)]"
    by simp
  have q: "\<And>tr n a. jvm_raises w tr n a = None" using assms(1) by (simp add: quiet_def)
  have tail: "seq [
                   (\<lambda>s. case file_out s of
                          None \<Rightarrow> raise (UnboundLocalError ''file_out'') s
                        | Some fo \<Rightarrow>
                            jcall w ''jvJasperFillManager.fillReport''
                              [Py (PStr fo), JMap (jparameters s), Ref ''ds''] s),
                   (\<lambda>s. jcall w ''jvJasperExportManager.exportReportToPdfFile''
                          [Ref ''jasperPrint'', Py (output_file s)] s)] s6
      = (None, s6\<lparr>events := events s6 @
           [Call ''jvJasperFillManager.fillReport'' [Py (PStr fo), JMap (jparameters s6), Ref ''ds'']
                   (sys_out s),
            Call ''jvJasperExportManager.exportReportToPdfFile''
                   [Ref ''jasperPrint'', Py (output_file s)] (sys_out s)]\<rparr>)"
    using p assms(3) by (simp add: seq_eval jcall_def q Let_def)
  have "json_fill w c s
      = (None, s6\<lparr>events := events s6 @
           [Call ''jvJasperFillManager.fillReport'' [Py (PStr fo), JMap (jparameters s6), Ref ''ds'']
                   (sys_out s),
            Call ''jvJasperExportManager.exportReportToPdfFile''
                   [Ref ''jasperPrint'', Py (output_file s)] (sys_out s)]\<rparr>)"
    unfolding json_fill_def
    using assms(2) nr tail
    by (simp only: try_except_def if_True parts seq_append [of _ "[_, _]"] pre_def [symmetric]
        s6_def [symmetric]) simp
  then show ?thesis using es by simp
qed

text \<open>
  When the caller gives an output file, line 289 is not run and \<^verbatim>\<open>file_out\<close> is never
  assigned: with \<^verbatim>\<open>jsonql\<close> the fill of line 380 then raises \<^verbatim>\<open>UnboundLocalError\<close>.
\<close>

lemma process_json_explicit_output_unbound:
  "fst (process_json quiet_world ''report.jrxml'' (PStr ''out.pdf'') (PList [PStr ''pdf'']) []
          [(''driver'', PStr ''jsonql''), (''data_file'', PStr ''data.json'')] (PBool False) []
          init_state)
   = Some (NameError (''Error: Error: cannot access local variable '' @ [CHR 0x27]
                      @ ''file_out'' @ [CHR 0x27] @ '' where it is not associated with a value''))"
  by (simp add: json_unfold run_unfold quiet_world_def init_state_def)

text \<open>
  Claim C3. In a state whose configuration answers any data-source type other than
  \<^verbatim>\<open>jsonql\<close>, the fill phase of lines 360 to 385 raises
  \<^verbatim>\<open>NameError('Error: Invalid json input!')\<close> (the spec's UnsupportedDataSource) and makes no
  foreign call; with \<^verbatim>\<open>jsonql\<close>, an engine that raises nothing and \<^verbatim>\<open>file_out\<close> assigned, it
  ends normally and its last two events are the fill from \<^verbatim>\<open>file_out\<close> and the export to
  \<^verbatim>\<open>output_file\<close>. For the whole method and the driver \<^verbatim>\<open>'json'\<close>: whatever the engine does,
  \<^verbatim>\<open>process_json\<close> raises and none of its foreign calls is the fill or the export; and with
  valid arguments, a data file, no URL and an engine that raises nothing, the exception is
  \<^verbatim>\<open>NameError('Error: Error: Invalid json input!')\<close>.
\<close>

theorem json_unsupported_data_source:
  "(getDbType w s \<noteq> Some Jsonql \<longrightarrow>
      json_fill w connection s = (Some (NameError ''Error: Invalid json input!''), s))
   \<and> (quiet w \<and> getDbType w s = Some Jsonql \<and> file_out s = Some fo \<longrightarrow>
        fst (json_fill w connection s) = None
        \<and> (\<exists>es ps. events (snd (json_fill w connection s))
               = events s @ es
                 @ [Call ''jvJasperFillManager.fillReport'' [Py (PStr fo), JMap ps, Ref ''ds'']
                      (sys_out s),
                    Call ''jvJasperExportManager.exportReportToPdfFile''
                      [Ref ''jasperPrint'', Py (output_file s)] (sys_out s)]))
   \<and> (map_of connection ''driver'' = Some (PStr ''json'') \<longrightarrow>
        fst (process_json w input_file out format_list parameters connection locale resource s) \<noteq> None
        \<and> grows (calls_only no_fill) s (snd (process_json w input_file out format_list parameters connection locale resource s))
        \<and> (quiet w \<and> fst (process_json_validate input_file format_list s) = None
            \<and> has_key connection ''data_file'' \<and> \<not> has_key connection ''url_file'' \<longrightarrow>
             fst (process_json w input_file out format_list parameters connection locale resource s) = Some (NameError ''Error: Error: Invalid json input!'')))"
proof (intro conjI impI)
  assume "getDbType w s \<noteq> Some Jsonql"
  then show "json_fill w connection s = (Some (NameError ''Error: Invalid json input!''), s)"
    by (rule json_fill_unsupported)
next
  assume a: "quiet w \<and> getDbType w s = Some Jsonql \<and> file_out s = Some fo"
  note r = json_fill_jsonql [OF a [THEN conjunct1] a [THEN conjunct2, THEN conjunct1]
      a [THEN conjunct2, THEN conjunct2], of connection]
  show "fst (json_fill w connection s) = None" by (rule r [THEN conjunct1])
  show "\<exists>es ps. events (snd (json_fill w connection s))
               = events s @ es
                 @ [Call ''jvJasperFillManager.fillReport'' [Py (PStr fo), JMap ps, Ref ''ds'']
                      (sys_out s),
                    Call ''jvJasperExportManager.exportReportToPdfFile''
                      [Ref ''jasperPrint'', Py (output_file s)] (sys_out s)]"
    by (rule r [THEN conjunct2])
next
  assume d: "map_of connection ''driver'' = Some (PStr ''json'')"
  note eq = json_set_db_type_json [OF d, of w]
  have ne: "Json \<noteq> Jsonql" by simp
  note r = process_json_unsupported [OF eq ne, of input_file out format_list parameters "locale"
      resource s]
  show "fst (process_json w input_file out format_list parameters connection locale resource s) \<noteq> None" by (rule r [THEN conjunct1])
  show "grows (calls_only no_fill) s (snd (process_json w input_file out format_list parameters connection locale resource s))" by (rule r [THEN conjunct2])
  assume q: "quiet w \<and> fst (process_json_validate input_file format_list s) = None
            \<and> has_key connection ''data_file'' \<and> \<not> has_key connection ''url_file''"
  have nr: "noraise (json_connection w connection)"
    using q by (intro noraise_json_connection) simp_all
  show "fst (process_json w input_file out format_list parameters connection locale resource s) = Some (NameError ''Error: Error: Invalid json input!'')"
    by (rule process_json_unsupported_quiet [OF q [THEN conjunct1]
          q [THEN conjunct2, THEN conjunct1] nr eq ne])
qed

theorem json_unsupported_data_source_witness:
  "json_fill quiet_world [] init_state
     = (Some (NameError ''Error: Invalid json input!''), init_state)
   \<and> fst (json_fill quiet_world [] jsonql_state) = None
   \<and> fst (process_json quiet_world ''report.jrxml'' (PBool False) (PList [PStr ''pdf'']) []
            [(''driver'', PStr ''json''), (''data_file'', PStr ''data.json'')] (PBool False) []
            init_state)
       = Some (NameError ''Error: Error: Invalid json input!'')"
proof -
  have q: "quiet quiet_world" by (simp add: quiet_def quiet_world_def)
  note a = json_unsupported_data_source [of quiet_world init_state "[]"]
  note b = json_unsupported_data_source [of quiet_world jsonql_state "[]" "''report.jasper''"]
  note c = json_unsupported_data_source [of quiet_world init_state
      "[(''driver'', PStr ''json''), (''data_file'', PStr ''data.json'')]" _
      "''report.jrxml''" "PBool False" "PList [PStr ''pdf'']" "[]" "PBool False" "[]"]
  have 1: "getDbType quiet_world init_state \<noteq> Some Jsonql"
    by (simp add: getDbType_def quiet_world_def init_state_def)
  have 2: "quiet quiet_world \<and> getDbType quiet_world jsonql_state = Some Jsonql
           \<and> file_out jsonql_state = Some ''report.jasper''"
    using q by (simp add: getDbType_def jsonql_state_def)
  have 3: "map_of [(''driver'', PStr ''json''), (''data_file'', PStr ''data.json'')] ''driver''
           = Some (PStr ''json'')" by simp
  have 4: "quiet quiet_world
      \<and> fst (process_json_validate ''report.jrxml'' (PList [PStr ''pdf'']) init_state) = None
      \<and> has_key [(''driver'', PStr ''json''), (''data_file'', PStr ''data.json'')] ''data_file''
      \<and> \<not> has_key [(''driver'', PStr ''json''), (''data_file'', PStr ''data.json'')] ''url_file''"
    using q by (simp add: has_key_def process_json_validate_pass)
  note a' = a [THEN conjunct1, THEN mp, OF 1]
  note b' = b [THEN conjunct2, THEN conjunct1, THEN mp, OF 2, THEN conjunct1]
  note c' = c [THEN conjunct2, THEN conjunct2, THEN mp, OF 3, THEN conjunct2, THEN conjunct2,
      THEN mp, OF 4]
  show ?thesis by (intro conjI a' b' c')
qed

text \<open>
  Claim C6. A non-empty connection with neither \<^verbatim>\<open>'data_file'\<close> nor \<^verbatim>\<open>'url_file'\<close> makes
  lines 303 to 305 raise \<^verbatim>\<open>NameError('No data sources were reported')\<close> (the spec's
  MissingDataSource), and the call of \<^verbatim>\<open>process_json\<close>, with valid arguments and an engine
  that raises nothing, raise \<^verbatim>\<open>NameError('Error: No data sources were reported')\<close>. An
  empty connection passes lines 303 to 347 with no effect, and the same call with it
  fails in the fill phase instead, with \<^verbatim>\<open>'Error: Error: Invalid json input!'\<close>.
\<close>

theorem json_missing_data_source:
  "(connection \<noteq> [] \<and> \<not> has_key connection ''data_file'' \<and> \<not> has_key connection ''url_file''
      \<longrightarrow>
      json_connection w connection s = (Some (NameError ''No data sources were reported''), s)
      \<and> (quiet w \<and> fst (process_json_validate input_file format_list s) = None \<longrightarrow>
           fst (process_json w input_file out format_list parameters connection locale resource s) = Some (NameError ''Error: No data sources were reported'')))
   \<and> json_connection w [] s = (None, s)
   \<and> (quiet w \<and> fst (process_json_validate input_file format_list s) = None \<longrightarrow>
        fst (process_json w input_file out format_list parameters [] locale resource s)
        = Some (NameError ''Error: Error: Invalid json input!''))"
proof (intro conjI impI)
  show "json_connection w [] s = (None, s)" by (rule json_connection_empty)
next
  assume a: "connection \<noteq> [] \<and> \<not> has_key connection ''data_file''
             \<and> \<not> has_key connection ''url_file''"
  note h = a [THEN conjunct1] a [THEN conjunct2, THEN conjunct1] a [THEN conjunct2, THEN conjunct2]
  show "json_connection w connection s = (Some (NameError ''No data sources were reported''), s)"
    by (rule json_connection_missing [OF h])
  assume q: "quiet w \<and> fst (process_json_validate input_file format_list s) = None"
  show "fst (process_json w input_file out format_list parameters connection locale resource s) = Some (NameError ''Error: No data sources were reported'')"
    by (rule process_json_missing_quiet [OF q [THEN conjunct1] q [THEN conjunct2] h])
next
  assume q: "quiet w \<and> fst (process_json_validate input_file format_list s) = None"
  have eq: "json_set_db_type w [] = config_set w ''DbType'' (DsType DsNone)"
    by (rule json_set_db_type_absent) simp
  have nr: "noraise (json_connection w [])"
    using q by (intro noraise_json_connection) (simp_all add: has_key_def)
  have ne: "DsNone \<noteq> Jsonql" by simp
  show "fst (process_json w input_file out format_list parameters [] locale resource s)
        = Some (NameError ''Error: Error: Invalid json input!'')"
    by (rule process_json_unsupported_quiet [OF q [THEN conjunct1] q [THEN conjunct2] nr eq ne])
qed

theorem json_missing_data_source_witness:
  "fst (process_json quiet_world ''report.jrxml'' (PBool False) (PList [PStr ''pdf'']) []
          [(''driver'', PStr ''jsonql'')] (PBool False) [] init_state)
     = Some (NameError ''Error: No data sources were reported'')
   \<and> fst (process_json quiet_world ''report.jrxml'' (PBool False) (PList [PStr ''pdf'']) []
            [] (PBool False) [] init_state)
       = Some (NameError ''Error: Error: Invalid json input!'')"
proof -
  have q: "quiet quiet_world
      \<and> fst (process_json_validate ''report.jrxml'' (PList [PStr ''pdf'']) init_state) = None"
    by (simp add: quiet_def quiet_world_def process_json_validate_pass)
  have 1: "[(''driver'', PStr ''jsonql'')] \<noteq> []
      \<and> \<not> has_key [(''driver'', PStr ''jsonql'')] ''data_file''
      \<and> \<not> has_key [(''driver'', PStr ''jsonql'')] ''url_file''"
    by (simp add: has_key_def)
  note a = json_missing_data_source [of "[(''driver'', PStr ''jsonql'')]" quiet_world init_state
      "''report.jrxml''" "PList [PStr ''pdf'']" "PBool False" "[]" "PBool False" "[]"]
  note a1 = a [THEN conjunct1, THEN mp, OF 1, THEN conjunct2, THEN mp, OF q]
  note a2 = a [THEN conjunct2, THEN conjunct2, THEN mp, OF q]
  show ?thesis by (intro conjI a1 a2)
qed

end
